theory Spec2Isabelle
  imports Main "HOL-Library.AList"
begin

section \<open>Values shared by the whole backend\<close>

text \<open>
  UUIDs, timestamps and transport handles are opaque to the handlers: they are only
  compared for equality, so each is a natural number here. A \<open>websocket\<close> is the
  identity of one FastAPI \<open>WebSocket\<close> object.
\<close>

type_synonym uuid = nat
type_synonym datetime = nat
type_synonym websocket = nat

text \<open>\<open>schemas/websocket.py\<close>: the event types and the payload classes.\<close>

datatype WSMessageType =
    NEW_MESSAGE | MESSAGE_DELIVERED | MESSAGE_READ | MESSAGE_EDITED | MESSAGE_DELETED
  | NEW_CONVERSATION | REACTION_ADDED | REACTION_REMOVED | TYPING
  | USER_ONLINE | USER_OFFLINE | CONNECTED | ERROR | PING | PONG

datatype WSData =
    WSChatMessage uuid uuid "uuid option" string string string string "string option"
      "datetime option"
  | WSMessageEdited uuid uuid "uuid option" string "datetime option"
  | WSMessageDeleted uuid uuid "uuid option"
  | WSMessageRead uuid uuid uuid string datetime
  | WSReactionAdded uuid uuid uuid string string "datetime option"
  | WSReactionRemoved uuid uuid uuid string
  | WSConnected uuid string
  | WSUserStatus uuid string string "datetime option"
  | WSConversation uuid "uuid list"

record WSMessage =
  ws_type :: WSMessageType
  ws_data :: WSData
  ws_timestamp :: datetime

section \<open>The connection manager (\<open>websocket/manager.py\<close>)\<close>

text \<open>
  A Python \<open>dict\<close> is an association list with distinct keys in insertion order:
  \<open>d[k] = v\<close> is \<^const>\<open>AList.update\<close>, \<open>del d[k]\<close> is \<^const>\<open>AList.delete\<close>,
  \<open>k in d\<close> and \<open>d[k]\<close> are \<^const>\<open>map_of\<close>. The order is the one \<open>items()\<close>
  and \<open>keys()\<close> iterate in.
\<close>

record ConnectionManager =
  active_connections :: "(uuid \<times> websocket) list"
  user_conversations :: "(uuid \<times> uuid set) list"

text \<open>
  What the transports have seen: every \<open>accept()\<close>, every \<open>close()\<close> call and every
  frame that \<open>send_json\<close> delivered, in order. \<open>broken\<close> holds the transports whose
  \<open>send_json\<close> raises (the peer is gone); the environment decides it.
\<close>

record transports =
  accepted :: "websocket list"
  closed :: "websocket list"
  sent :: "(websocket \<times> WSMessage) list"
  broken :: "websocket set"

definition new_manager :: ConnectionManager where
  "new_manager = \<lparr>active_connections = [], user_conversations = []\<rparr>"

text \<open>
  \<open>connect\<close>: accept, close the old transport of the user if there is one (an exception
  of \<open>close\<close> is caught and logged, so the call is made either way), store the new one.
\<close>

definition connect ::
  "websocket \<Rightarrow> uuid \<Rightarrow> ConnectionManager \<times> transports \<Rightarrow> ConnectionManager \<times> transports"
where
  "connect websocket user_id st =
     (let (m, io) = st;
          io1 = io\<lparr>accepted := accepted io @ [websocket]\<rparr>;
          io2 = (case map_of (active_connections m) user_id of
                   Some old_ws \<Rightarrow> io1\<lparr>closed := closed io1 @ [old_ws]\<rparr>
                 | None \<Rightarrow> io1)
      in (m\<lparr>active_connections := AList.update user_id websocket (active_connections m)\<rparr>,
          io2))"

definition disconnect :: "uuid \<Rightarrow> ConnectionManager \<Rightarrow> ConnectionManager" where
  "disconnect user_id m =
     m\<lparr>active_connections := AList.delete user_id (active_connections m),
       user_conversations := AList.delete user_id (user_conversations m)\<rparr>"

definition add_user_to_conversation ::
  "uuid \<Rightarrow> uuid \<Rightarrow> ConnectionManager \<Rightarrow> ConnectionManager"
where
  "add_user_to_conversation user_id conversation_id m =
     (let convs = (case map_of (user_conversations m) user_id of
                     None \<Rightarrow> {} | Some cs \<Rightarrow> cs)
      in m\<lparr>user_conversations :=
             AList.update user_id (insert conversation_id convs) (user_conversations m)\<rparr>)"

definition remove_user_from_conversation ::
  "uuid \<Rightarrow> uuid \<Rightarrow> ConnectionManager \<Rightarrow> ConnectionManager"
where
  "remove_user_from_conversation user_id conversation_id m =
     (case map_of (user_conversations m) user_id of
        None \<Rightarrow> m
      | Some cs \<Rightarrow>
          m\<lparr>user_conversations :=
              AList.update user_id (cs - {conversation_id}) (user_conversations m)\<rparr>)"

text \<open>
  \<open>send_personal_message\<close>: a user without a connection is skipped with a warning; a
  \<open>send_json\<close> that raises evicts the user through \<open>disconnect\<close>.
\<close>

definition send_personal_message ::
  "WSMessage \<Rightarrow> uuid \<Rightarrow> ConnectionManager \<times> transports \<Rightarrow> ConnectionManager \<times> transports"
where
  "send_personal_message message user_id st =
     (let (m, io) = st
      in case map_of (active_connections m) user_id of
           None \<Rightarrow> (m, io)
         | Some websocket \<Rightarrow>
             if websocket \<in> broken io then (disconnect user_id m, io)
             else (m, io\<lparr>sent := sent io @ [(websocket, message)]\<rparr>))"

definition target_users :: "uuid \<Rightarrow> uuid option \<Rightarrow> ConnectionManager \<Rightarrow> uuid list" where
  "target_users conversation_id exclude_user_id m =
     map fst (filter (\<lambda>(user_id, conversations).
                  conversation_id \<in> conversations \<and> Some user_id \<noteq> exclude_user_id)
                (user_conversations m))"

definition broadcast_to_conversation ::
  "WSMessage \<Rightarrow> uuid \<Rightarrow> uuid option \<Rightarrow> ConnectionManager \<times> transports
     \<Rightarrow> ConnectionManager \<times> transports"
where
  "broadcast_to_conversation message conversation_id exclude_user_id st =
     fold (send_personal_message message)
       (target_users conversation_id exclude_user_id (fst st)) st"

definition broadcast_to_all ::
  "WSMessage \<Rightarrow> uuid option \<Rightarrow> ConnectionManager \<times> transports
     \<Rightarrow> ConnectionManager \<times> transports"
where
  "broadcast_to_all message exclude_user_id st =
     fold (\<lambda>user_id st'. if Some user_id \<noteq> exclude_user_id
                            then send_personal_message message user_id st' else st')
       (map fst (active_connections (fst st))) st"

definition is_user_online :: "uuid \<Rightarrow> ConnectionManager \<Rightarrow> bool" where
  "is_user_online user_id m = (map_of (active_connections m) user_id \<noteq> None)"

definition send_to_user ::
  "WSMessage \<Rightarrow> uuid \<Rightarrow> ConnectionManager \<times> transports \<Rightarrow> ConnectionManager \<times> transports"
where
  "send_to_user message user_id st = send_personal_message message user_id st"

text \<open>The two operations of the presence registry that a client can drive.\<close>

datatype registry_op = Connect websocket uuid | Disconnect uuid

fun registry_step ::
  "registry_op \<Rightarrow> ConnectionManager \<times> transports \<Rightarrow> ConnectionManager \<times> transports"
where
  "registry_step (Connect websocket user_id) st = connect websocket user_id st"
| "registry_step (Disconnect user_id) st = (disconnect user_id (fst st), snd st)"

definition sessions_of :: "uuid \<Rightarrow> ConnectionManager \<Rightarrow> websocket list" where
  "sessions_of user_id m =
     map snd (filter (\<lambda>entry. fst entry = user_id) (active_connections m))"

section \<open>The relational store (\<open>models/\<close>, \<open>database.py\<close>)\<close>

text \<open>
  Every raise of a handler is a value of \<open>error\<close>: the three HTTP statuses the
  handlers raise themselves, the two exceptions of SQLAlchemy's \<open>scalar_one\<close> and
  \<open>scalar_one_or_none\<close>, and the \<open>IntegrityError\<close> of a flush that the store refuses.
\<close>

datatype error =
    HTTP_400_BAD_REQUEST | HTTP_403_FORBIDDEN | HTTP_404_NOT_FOUND
  | MultipleResultsFound | NoResultFound | IntegrityError

fun scalar_one_or_none :: "'a list \<Rightarrow> error + 'a option" where
  "scalar_one_or_none [] = Inr None"
| "scalar_one_or_none [row] = Inr (Some row)"
| "scalar_one_or_none (row # row' # rows) = Inl MultipleResultsFound"

fun scalar_one :: "'a list \<Rightarrow> error + 'a" where
  "scalar_one [] = Inl NoResultFound"
| "scalar_one [row] = Inr row"
| "scalar_one (row # row' # rows) = Inl MultipleResultsFound"

record User =
  u_id :: uuid
  u_username :: string
  u_display_name :: string

datatype ConversationType = direct | group

text \<open>
  \<open>created_at\<close> and \<open>updated_at\<close> are server defaults (\<open>server_default=func.now()\<close>):
  an object has \<open>None\<close> there until it is flushed. The session is made with
  \<open>autoflush=False\<close>, so only \<open>flush()\<close> and \<open>commit()\<close> flush.
\<close>

record Conversation =
  c_id :: uuid
  c_type :: ConversationType
  c_title :: "string option"
  c_created_by :: uuid
  c_created_at :: "datetime option"
  c_updated_at :: "datetime option"

record ConversationParticipant =
  p_conversation_id :: uuid
  p_user_id :: uuid
  p_joined_at :: "datetime option"
  p_last_read_message_id :: "uuid option"

record Message =
  m_id :: uuid
  m_conversation_id :: uuid
  m_sender_id :: "uuid option"
  m_content :: string
  m_file_url :: "string option"
  m_file_type :: "string option"
  m_file_name :: "string option"
  m_created_at :: "datetime option"
  m_edited_at :: "datetime option"
  m_is_deleted :: string
  m_delivered_at :: "datetime option"
  m_read_at :: "datetime option"
  m_read_by_user_id :: "uuid option"

record MessageReaction =
  r_id :: uuid
  r_message_id :: uuid
  r_user_id :: uuid
  r_emoji :: string
  r_created_at :: "datetime option"

record Friendship =
  f_id :: uuid
  f_user_id :: uuid
  f_friend_id :: uuid
  f_status :: string
  f_created_at :: "datetime option"
  f_updated_at :: "datetime option"

record database =
  users :: "User list"
  conversations :: "Conversation list"
  participants :: "ConversationParticipant list"
  messages :: "Message list"
  reactions :: "MessageReaction list"
  friendships :: "Friendship list"

text \<open>
  The constructors as the handlers call them: the columns a handler does not pass keep
  their Python-side value (\<open>None\<close>, or \<open>"false"\<close> for \<open>is_deleted\<close>). The primary key is
  the \<open>uuid.uuid4\<close> default; the value drawn for it is an argument.
\<close>

definition Message_init ::
  "uuid \<Rightarrow> uuid \<Rightarrow> uuid option \<Rightarrow> string \<Rightarrow> string option \<Rightarrow> string option \<Rightarrow> string option
     \<Rightarrow> Message"
where
  "Message_init new_id conversation_id sender_id content file_url file_type file_name =
     \<lparr>m_id = new_id, m_conversation_id = conversation_id, m_sender_id = sender_id,
      m_content = content, m_file_url = file_url, m_file_type = file_type,
      m_file_name = file_name, m_created_at = None, m_edited_at = None,
      m_is_deleted = ''false'', m_delivered_at = None, m_read_at = None,
      m_read_by_user_id = None\<rparr>"

definition flush_message :: "datetime \<Rightarrow> Message \<Rightarrow> Message" where
  "flush_message now m =
     (case m_created_at m of None \<Rightarrow> m\<lparr>m_created_at := Some now\<rparr> | Some t \<Rightarrow> m)"

definition update_message :: "Message \<Rightarrow> database \<Rightarrow> database" where
  "update_message message d =
     d\<lparr>messages := map (\<lambda>row. if m_id row = m_id message then message else row) (messages d)\<rparr>"

definition update_conversation :: "Conversation \<Rightarrow> database \<Rightarrow> database" where
  "update_conversation conversation d =
     d\<lparr>conversations :=
         map (\<lambda>row. if c_id row = c_id conversation then conversation else row)
           (conversations d)\<rparr>"

definition update_participant :: "ConversationParticipant \<Rightarrow> database \<Rightarrow> database" where
  "update_participant participant d =
     d\<lparr>participants :=
         map (\<lambda>row. if p_conversation_id row = p_conversation_id participant
                        \<and> p_user_id row = p_user_id participant
                     then participant else row)
           (participants d)\<rparr>"

definition delete_participant :: "ConversationParticipant \<Rightarrow> database \<Rightarrow> database" where
  "delete_participant participant d =
     d\<lparr>participants :=
         filter (\<lambda>row. \<not> (p_conversation_id row = p_conversation_id participant
                          \<and> p_user_id row = p_user_id participant))
           (participants d)\<rparr>"

definition participant_rows :: "uuid \<Rightarrow> uuid \<Rightarrow> database \<Rightarrow> ConversationParticipant list" where
  "participant_rows conversation_id user_id d =
     filter (\<lambda>p. p_conversation_id p = conversation_id \<and> p_user_id p = user_id)
       (participants d)"

definition participants_of :: "uuid \<Rightarrow> database \<Rightarrow> ConversationParticipant list" where
  "participants_of conversation_id d =
     filter (\<lambda>p. p_conversation_id p = conversation_id) (participants d)"

text \<open>
  \<open>(conversation_id, user_id)\<close> is the primary key of a participant row. A flush that
  inserts two rows with one key, or a row whose key is stored already, raises
  \<open>IntegrityError\<close>.
\<close>

definition participant_key :: "ConversationParticipant \<Rightarrow> uuid \<times> uuid" where
  "participant_key p = (p_conversation_id p, p_user_id p)"

definition insertable ::
  "ConversationParticipant list \<Rightarrow> ConversationParticipant list \<Rightarrow> bool"
where
  "insertable new_rows rows =
     (distinct (map participant_key new_rows)
      \<and> list_all (\<lambda>p. participant_key p \<notin> set (map participant_key rows)) new_rows)"

section \<open>The running application\<close>

text \<open>
  Two \<open>ConnectionManager\<close> objects exist at run time. \<open>app/websocket/__init__.py\<close> binds
  \<open>manager = ConnectionManager()\<close> in the package, and \<open>app/websocket/manager.py\<close> ends
  with its own \<open>manager = ConnectionManager()\<close>. \<open>from ...websocket import manager\<close>
  (\<open>endpoints/websocket.py\<close>, \<open>messages.py\<close>, \<open>reactions.py\<close>) reads the package's
  object, here \<open>pkg_manager\<close>; \<open>from ...websocket.manager import manager\<close>
  (\<open>conversations.py\<close>) reads the module's, here \<open>mod_manager\<close>.
\<close>

record system =
  db :: database
  pkg_manager :: ConnectionManager
  mod_manager :: ConnectionManager
  io :: transports

definition with_pkg ::
  "(ConnectionManager \<times> transports \<Rightarrow> ConnectionManager \<times> transports) \<Rightarrow> system \<Rightarrow> system"
where
  "with_pkg f s = (let (m, t) = f (pkg_manager s, io s) in s\<lparr>pkg_manager := m, io := t\<rparr>)"

definition with_mod ::
  "(ConnectionManager \<times> transports \<Rightarrow> ConnectionManager \<times> transports) \<Rightarrow> system \<Rightarrow> system"
where
  "with_mod f s = (let (m, t) = f (mod_manager s, io s) in s\<lparr>mod_manager := m, io := t\<rparr>)"

section \<open>The WebSocket endpoint (\<open>endpoints/websocket.py\<close>)\<close>

definition load_user_conversations :: "uuid \<Rightarrow> system \<Rightarrow> system" where
  "load_user_conversations user_id s =
     s\<lparr>pkg_manager :=
         fold (add_user_to_conversation user_id)
           (map p_conversation_id (filter (\<lambda>p. p_user_id p = user_id) (participants (db s))))
           (pkg_manager s)\<rparr>"

text \<open>
  The endpoint up to its receive loop, for a token that authenticates \<open>user\<close>: connect,
  load the user's conversations, greet the user, tell the others. One reading \<open>now\<close> of
  the clock stands for every \<open>datetime.utcnow()\<close> of a request.
\<close>

definition websocket_endpoint :: "websocket \<Rightarrow> User \<Rightarrow> datetime \<Rightarrow> system \<Rightarrow> system" where
  "websocket_endpoint websocket user now s =
     (let s1 = with_pkg (connect websocket (u_id user)) s;
          s2 = load_user_conversations (u_id user) s1;
          connected_msg = \<lparr>ws_type = CONNECTED,
             ws_data = WSConnected (u_id user) (u_username user), ws_timestamp = now\<rparr>;
          s3 = with_pkg (send_personal_message connected_msg (u_id user)) s2;
          online_msg = \<lparr>ws_type = USER_ONLINE,
             ws_data = WSUserStatus (u_id user) (u_username user) ''online'' None,
             ws_timestamp = now\<rparr>
      in with_pkg (broadcast_to_all online_msg (Some (u_id user))) s3)"

section \<open>Message endpoints (\<open>endpoints/messages.py\<close>)\<close>

record MessageCreate =
  mc_conversation_id :: uuid
  mc_content :: string
  mc_file_url :: "string option"
  mc_file_type :: "string option"
  mc_file_name :: "string option"

text \<open>
  A handler returns what it raises or returns, and the state it leaves. A raise rolls the
  session back (\<open>get_db\<close>), so the store is the one the request found.

  \<open>send_message\<close> adds the new message and assigns \<open>new_message.created_at\<close> to
  \<open>conversation.updated_at\<close> before anything is flushed (\<open>add_participant\<close> and
  \<open>leave_conversation\<close> call \<open>flush()\<close> first). \<open>commit\<close> then flushes the message and
  the conversation; \<open>updated_at\<close> is declared \<open>nullable=False\<close>, so a \<open>None\<close> there makes
  \<open>commit\<close> raise \<open>IntegrityError\<close>, and nothing is stored or sent.
\<close>

definition send_message ::
  "MessageCreate \<Rightarrow> User \<Rightarrow> uuid \<Rightarrow> datetime \<Rightarrow> system \<Rightarrow> (error + Message) \<times> system"
where
  "send_message message_data current_user new_id now s =
     (case scalar_one_or_none
             (participant_rows (mc_conversation_id message_data) (u_id current_user) (db s)) of
        Inl e \<Rightarrow> (Inl e, s)
      | Inr None \<Rightarrow> (Inl HTTP_403_FORBIDDEN, s)
      | Inr (Some _) \<Rightarrow>
          (let new_message = Message_init new_id (mc_conversation_id message_data)
                 (Some (u_id current_user)) (mc_content message_data)
                 (mc_file_url message_data) (mc_file_type message_data)
                 (mc_file_name message_data)
           in case scalar_one (filter (\<lambda>c. c_id c = mc_conversation_id message_data)
                                 (conversations (db s))) of
                Inl e \<Rightarrow> (Inl e, s)
              | Inr conversation \<Rightarrow>
                  (let conversation' = conversation\<lparr>c_updated_at := m_created_at new_message\<rparr>
                   in if c_updated_at conversation' = None then (Inl IntegrityError, s)
                      else
                      (let new_message' = flush_message now new_message;
                           d = update_conversation conversation'
                                 ((db s)\<lparr>messages := messages (db s) @ [new_message']\<rparr>);
                           ws_message = \<lparr>ws_type = NEW_MESSAGE,
                              ws_data = WSChatMessage (m_conversation_id new_message')
                                (m_id new_message') (m_sender_id new_message')
                                (u_username current_user) (u_display_name current_user)
                                (m_content new_message')
                                (case m_file_type new_message' of None \<Rightarrow> ''text''
                                 | Some t \<Rightarrow> if t = [] then ''text'' else t)
                                (m_file_url new_message') (m_created_at new_message'),
                              ws_timestamp = now\<rparr>
                       in (Inr new_message',
                           with_pkg (broadcast_to_conversation ws_message
                                       (mc_conversation_id message_data) None)
                             (s\<lparr>db := d\<rparr>))))))"

definition edit_message ::
  "uuid \<Rightarrow> string \<Rightarrow> User \<Rightarrow> datetime \<Rightarrow> system \<Rightarrow> (error + Message) \<times> system"
where
  "edit_message message_id content current_user now s =
     (case scalar_one_or_none (filter (\<lambda>m. m_id m = message_id) (messages (db s))) of
        Inl e \<Rightarrow> (Inl e, s)
      | Inr None \<Rightarrow> (Inl HTTP_404_NOT_FOUND, s)
      | Inr (Some message) \<Rightarrow>
          if m_sender_id message \<noteq> Some (u_id current_user) then (Inl HTTP_403_FORBIDDEN, s)
          else if m_is_deleted message = ''true'' then (Inl HTTP_400_BAD_REQUEST, s)
          else
            (let message' = message\<lparr>m_content := content, m_edited_at := Some now\<rparr>;
                 ws_message = \<lparr>ws_type = MESSAGE_EDITED,
                    ws_data = WSMessageEdited (m_conversation_id message') (m_id message')
                      (m_sender_id message') (m_content message') (m_edited_at message'),
                    ws_timestamp = now\<rparr>
             in (Inr message',
                 with_pkg (broadcast_to_conversation ws_message (m_conversation_id message')
                             None)
                   (s\<lparr>db := update_message message' (db s)\<rparr>))))"

record MessageReadResponse =
  mr_message_id :: uuid
  mr_read_at :: datetime
  mr_read_by_user_id :: uuid

definition mark_message_as_read ::
  "uuid \<Rightarrow> User \<Rightarrow> datetime \<Rightarrow> system \<Rightarrow> (error + MessageReadResponse) \<times> system"
where
  "mark_message_as_read message_id current_user now s =
     (case scalar_one_or_none (filter (\<lambda>m. m_id m = message_id) (messages (db s))) of
        Inl e \<Rightarrow> (Inl e, s)
      | Inr None \<Rightarrow> (Inl HTTP_404_NOT_FOUND, s)
      | Inr (Some message) \<Rightarrow>
          (case scalar_one_or_none
                  (participant_rows (m_conversation_id message) (u_id current_user) (db s)) of
             Inl e \<Rightarrow> (Inl e, s)
           | Inr None \<Rightarrow> (Inl HTTP_403_FORBIDDEN, s)
           | Inr (Some participant) \<Rightarrow>
               if m_sender_id message = Some (u_id current_user)
               then (Inl HTTP_400_BAD_REQUEST, s)
               else
                 (let message' = message\<lparr>m_read_at := Some now,
                                          m_read_by_user_id := Some (u_id current_user)\<rparr>;
                      participant' = participant\<lparr>p_last_read_message_id := Some message_id\<rparr>;
                      d = update_participant participant' (update_message message' (db s));
                      read_event = \<lparr>ws_type = MESSAGE_READ,
                         ws_data = WSMessageRead (m_conversation_id message') (m_id message')
                           (u_id current_user) (u_username current_user) now,
                         ws_timestamp = now\<rparr>
                  in (Inr \<lparr>mr_message_id = m_id message', mr_read_at = now,
                            mr_read_by_user_id = u_id current_user\<rparr>,
                      with_pkg (broadcast_to_conversation read_event
                                  (m_conversation_id message') (Some (u_id current_user)))
                        (s\<lparr>db := d\<rparr>)))))"

definition delete_message ::
  "uuid \<Rightarrow> User \<Rightarrow> datetime \<Rightarrow> system \<Rightarrow> (error + string) \<times> system"
where
  "delete_message message_id current_user now s =
     (case scalar_one_or_none (filter (\<lambda>m. m_id m = message_id) (messages (db s))) of
        Inl e \<Rightarrow> (Inl e, s)
      | Inr None \<Rightarrow> (Inl HTTP_404_NOT_FOUND, s)
      | Inr (Some message) \<Rightarrow>
          if m_sender_id message \<noteq> Some (u_id current_user) then (Inl HTTP_403_FORBIDDEN, s)
          else if m_is_deleted message = ''true'' then (Inl HTTP_400_BAD_REQUEST, s)
          else
            (let message' = message\<lparr>m_is_deleted := ''true'',
                                     m_content := ''This message was deleted'',
                                     m_file_url := None, m_file_type := None,
                                     m_file_name := None\<rparr>;
                 ws_message = \<lparr>ws_type = MESSAGE_DELETED,
                    ws_data = WSMessageDeleted (m_conversation_id message') (m_id message')
                      (m_sender_id message'),
                    ws_timestamp = now\<rparr>
             in (Inr ''Message deleted successfully'',
                 with_pkg (broadcast_to_conversation ws_message (m_conversation_id message')
                             None)
                   (s\<lparr>db := update_message message' (db s)\<rparr>))))"

section \<open>Reaction endpoints (\<open>endpoints/reactions.py\<close>)\<close>

definition reaction_rows :: "uuid \<Rightarrow> uuid \<Rightarrow> string \<Rightarrow> database \<Rightarrow> MessageReaction list" where
  "reaction_rows message_id user_id emoji d =
     filter (\<lambda>r. r_message_id r = message_id \<and> r_user_id r = user_id \<and> r_emoji r = emoji)
       (reactions d)"

definition add_reaction ::
  "uuid \<Rightarrow> string \<Rightarrow> User \<Rightarrow> uuid \<Rightarrow> datetime \<Rightarrow> system \<Rightarrow> (error + MessageReaction) \<times> system"
where
  "add_reaction message_id emoji current_user new_id now s =
     (case scalar_one_or_none (filter (\<lambda>m. m_id m = message_id) (messages (db s))) of
        Inl e \<Rightarrow> (Inl e, s)
      | Inr None \<Rightarrow> (Inl HTTP_404_NOT_FOUND, s)
      | Inr (Some message) \<Rightarrow>
          (case scalar_one_or_none
                  (participant_rows (m_conversation_id message) (u_id current_user) (db s)) of
             Inl e \<Rightarrow> (Inl e, s)
           | Inr None \<Rightarrow> (Inl HTTP_403_FORBIDDEN, s)
           | Inr (Some _) \<Rightarrow>
               (case scalar_one_or_none
                       (reaction_rows message_id (u_id current_user) emoji (db s)) of
                  Inl e \<Rightarrow> (Inl e, s)
                | Inr (Some existing_reaction) \<Rightarrow> (Inr existing_reaction, s)
                | Inr None \<Rightarrow>
                    (let new_reaction = \<lparr>r_id = new_id, r_message_id = message_id,
                           r_user_id = u_id current_user, r_emoji = emoji,
                           r_created_at = Some now\<rparr>;
                         d = (db s)\<lparr>reactions := reactions (db s) @ [new_reaction]\<rparr>;
                         ws_message = \<lparr>ws_type = REACTION_ADDED,
                            ws_data = WSReactionAdded (m_conversation_id message) message_id
                              (u_id current_user) (u_username current_user) emoji
                              (r_created_at new_reaction),
                            ws_timestamp = now\<rparr>
                     in (Inr new_reaction,
                         with_pkg (broadcast_to_conversation ws_message
                                     (m_conversation_id message) None)
                           (s\<lparr>db := d\<rparr>))))))"

definition remove_reaction ::
  "uuid \<Rightarrow> string \<Rightarrow> User \<Rightarrow> datetime \<Rightarrow> system \<Rightarrow> (error + string) \<times> system"
where
  "remove_reaction message_id emoji current_user now s =
     (case scalar_one_or_none (filter (\<lambda>m. m_id m = message_id) (messages (db s))) of
        Inl e \<Rightarrow> (Inl e, s)
      | Inr None \<Rightarrow> (Inl HTTP_404_NOT_FOUND, s)
      | Inr (Some message) \<Rightarrow>
          (case scalar_one_or_none
                  (reaction_rows message_id (u_id current_user) emoji (db s)) of
             Inl e \<Rightarrow> (Inl e, s)
           | Inr None \<Rightarrow> (Inl HTTP_404_NOT_FOUND, s)
           | Inr (Some reaction) \<Rightarrow>
               (let d = (db s)\<lparr>reactions :=
                            filter (\<lambda>r. r_id r \<noteq> r_id reaction) (reactions (db s))\<rparr>;
                    ws_message = \<lparr>ws_type = REACTION_REMOVED,
                       ws_data = WSReactionRemoved (m_conversation_id message) message_id
                         (u_id current_user) emoji,
                       ws_timestamp = now\<rparr>
                in (Inr ''Reaction removed successfully'',
                    with_pkg (broadcast_to_conversation ws_message
                                (m_conversation_id message) None)
                      (s\<lparr>db := d\<rparr>)))))"

section \<open>Friendship endpoints (\<open>api/friendships.py\<close>)\<close>

definition friendship_rows :: "uuid \<Rightarrow> uuid \<Rightarrow> database \<Rightarrow> Friendship list" where
  "friendship_rows a b d =
     filter (\<lambda>f. (f_user_id f = a \<and> f_friend_id f = b) \<or> (f_user_id f = b \<and> f_friend_id f = a))
       (friendships d)"

definition update_friendship :: "Friendship \<Rightarrow> database \<Rightarrow> database" where
  "update_friendship friendship d =
     d\<lparr>friendships :=
         map (\<lambda>row. if f_id row = f_id friendship then friendship else row) (friendships d)\<rparr>"

definition send_friend_request ::
  "uuid \<Rightarrow> User \<Rightarrow> uuid \<Rightarrow> datetime \<Rightarrow> system \<Rightarrow> (error + Friendship) \<times> system"
where
  "send_friend_request friend_id current_user new_id now s =
     (if friend_id = u_id current_user then (Inl HTTP_400_BAD_REQUEST, s)
      else case scalar_one_or_none (filter (\<lambda>u. u_id u = friend_id) (users (db s))) of
        Inl e \<Rightarrow> (Inl e, s)
      | Inr None \<Rightarrow> (Inl HTTP_404_NOT_FOUND, s)
      | Inr (Some target_user) \<Rightarrow>
          (case scalar_one_or_none (friendship_rows (u_id current_user) friend_id (db s)) of
             Inl e \<Rightarrow> (Inl e, s)
           | Inr (Some existing_friendship) \<Rightarrow>
               if f_status existing_friendship = ''pending'' then (Inl HTTP_400_BAD_REQUEST, s)
               else if f_status existing_friendship = ''accepted''
               then (Inl HTTP_400_BAD_REQUEST, s)
               else if f_status existing_friendship = ''blocked''
               then (Inl HTTP_403_FORBIDDEN, s)
               else
                 (let existing_friendship' = existing_friendship\<lparr>f_status := ''pending'',
                        f_user_id := u_id current_user, f_friend_id := friend_id,
                        f_updated_at := Some now\<rparr>
                  in (Inr existing_friendship',
                      s\<lparr>db := update_friendship existing_friendship' (db s)\<rparr>))
           | Inr None \<Rightarrow>
               (let friendship = \<lparr>f_id = new_id, f_user_id = u_id current_user,
                      f_friend_id = friend_id, f_status = ''pending'',
                      f_created_at = Some now, f_updated_at = Some now\<rparr>
                in (Inr friendship,
                    s\<lparr>db := (db s)\<lparr>friendships := friendships (db s) @ [friendship]\<rparr>\<rparr>))))"

section \<open>Conversation endpoints (\<open>endpoints/conversations.py\<close>)\<close>

text \<open>
  Every manager call of this module goes to \<open>mod_manager\<close>. The system messages are
  Vietnamese sentences; they are written here without their diacritics.
\<close>

record ConversationCreate =
  cc_type :: ConversationType
  cc_title :: "string option"
  cc_participant_ids :: "uuid list"

record ConversationResponse =
  cr_conversation :: Conversation
  cr_participants :: "uuid list"

definition build_conversation_response :: "Conversation \<Rightarrow> database \<Rightarrow> ConversationResponse" where
  "build_conversation_response conversation d =
     \<lparr>cr_conversation = conversation,
      cr_participants = map p_user_id (participants_of (c_id conversation) d)\<rparr>"

definition new_conversation_message :: "Conversation \<Rightarrow> database \<Rightarrow> datetime \<Rightarrow> WSMessage" where
  "new_conversation_message conversation d now =
     \<lparr>ws_type = NEW_CONVERSATION,
      ws_data = WSConversation (c_id conversation)
                  (cr_participants (build_conversation_response conversation d)),
      ws_timestamp = now\<rparr>"

definition system_chat_message :: "Message \<Rightarrow> datetime \<Rightarrow> WSMessage" where
  "system_chat_message system_message now =
     \<lparr>ws_type = NEW_MESSAGE,
      ws_data = WSChatMessage (m_conversation_id system_message) (m_id system_message) None
                  ''System'' ''System'' (m_content system_message) ''system'' None
                  (m_created_at system_message),
      ws_timestamp = now\<rparr>"

definition new_participant :: "uuid \<Rightarrow> uuid \<Rightarrow> datetime \<Rightarrow> ConversationParticipant" where
  "new_participant conversation_id user_id now =
     \<lparr>p_conversation_id = conversation_id, p_user_id = user_id, p_joined_at = Some now,
      p_last_read_message_id = None\<rparr>"

definition existing_direct :: "uuid \<Rightarrow> uuid \<Rightarrow> database \<Rightarrow> Conversation list" where
  "existing_direct a b d =
     filter (\<lambda>c. c_type c = direct
                \<and> length (filter (\<lambda>p. p_conversation_id p = c_id c \<and> p_user_id p \<in> {a, b})
                            (participants d)) = 2)
       (conversations d)"

definition validate_participants :: "ConversationCreate \<Rightarrow> User \<Rightarrow> database \<Rightarrow> error + unit" where
  "validate_participants conversation_data current_user d =
     (case cc_type conversation_data of
        direct \<Rightarrow>
          (case cc_participant_ids conversation_data of
             [other_user_id] \<Rightarrow>
               (case scalar_one_or_none (existing_direct (u_id current_user) other_user_id d) of
                  Inl e \<Rightarrow> Inl e
                | Inr (Some _) \<Rightarrow> Inl HTTP_400_BAD_REQUEST
                | Inr None \<Rightarrow> Inr ())
           | _ \<Rightarrow> Inl HTTP_400_BAD_REQUEST)
      | group \<Rightarrow>
          (case cc_title conversation_data of
             None \<Rightarrow> Inl HTTP_400_BAD_REQUEST
           | Some t \<Rightarrow> if t = [] then Inl HTTP_400_BAD_REQUEST else Inr ()))"

definition create_conversation ::
  "ConversationCreate \<Rightarrow> User \<Rightarrow> uuid \<Rightarrow> datetime \<Rightarrow> system
     \<Rightarrow> (error + ConversationResponse) \<times> system"
where
  "create_conversation conversation_data current_user new_id now s =
     (case validate_participants conversation_data current_user (db s) of
        Inl e \<Rightarrow> (Inl e, s)
      | Inr _ \<Rightarrow>
          if length (filter (\<lambda>u. u_id u \<in> set (cc_participant_ids conversation_data))
                       (users (db s)))
               \<noteq> length (cc_participant_ids conversation_data)
          then (Inl HTTP_404_NOT_FOUND, s)
          else
            (let new_conversation = \<lparr>c_id = new_id, c_type = cc_type conversation_data,
                    c_title = cc_title conversation_data, c_created_by = u_id current_user,
                    c_created_at = Some now, c_updated_at = Some now\<rparr>;
                 creator_participant = new_participant new_id (u_id current_user) now;
                 others = map (\<lambda>participant_id. new_participant new_id participant_id now)
                            (cc_participant_ids conversation_data);
                 d = (db s)\<lparr>conversations := conversations (db s) @ [new_conversation],
                            participants := participants (db s) @ creator_participant # others\<rparr>
             in if \<not> insertable (creator_participant # others) (participants (db s))
                then (Inl IntegrityError, s)
                else case scalar_one (filter (\<lambda>c. c_id c = new_id) (conversations d)) of
                  Inl e \<Rightarrow> (Inl e, s\<lparr>db := d\<rparr>)
                | Inr conversation \<Rightarrow>
                    (let s1 = s\<lparr>db := d,
                               mod_manager :=
                                 fold (\<lambda>p. add_user_to_conversation (p_user_id p)
                                              (c_id conversation))
                                   (participants_of (c_id conversation) d) (mod_manager s)\<rparr>;
                         ws_message = new_conversation_message conversation d now
                     in (Inr (build_conversation_response conversation d),
                         fold (\<lambda>p. with_mod (send_to_user ws_message (p_user_id p)))
                           (participants_of (c_id conversation) d) s1))))"

definition get_conversation ::
  "uuid \<Rightarrow> User \<Rightarrow> system \<Rightarrow> error + ConversationResponse"
where
  "get_conversation conversation_id current_user s =
     (case scalar_one_or_none
             (concat (map (\<lambda>c. map (\<lambda>p. c)
                                 (filter (\<lambda>p. p_conversation_id p = c_id c
                                              \<and> p_user_id p = u_id current_user)
                                    (participants (db s))))
                        (filter (\<lambda>c. c_id c = conversation_id) (conversations (db s))))) of
        Inl e \<Rightarrow> Inl e
      | Inr None \<Rightarrow> Inl HTTP_404_NOT_FOUND
      | Inr (Some conversation) \<Rightarrow> Inr (build_conversation_response conversation (db s)))"

definition accepted_friendship :: "uuid \<Rightarrow> uuid \<Rightarrow> database \<Rightarrow> Friendship list" where
  "accepted_friendship a b d =
     filter (\<lambda>f. f_status f = ''accepted'') (friendship_rows a b d)"

definition add_participant ::
  "uuid \<Rightarrow> uuid \<Rightarrow> User \<Rightarrow> uuid \<Rightarrow> datetime \<Rightarrow> system \<Rightarrow> (error + string) \<times> system"
where
  "add_participant conversation_id user_id current_user new_id now s =
     (case scalar_one_or_none (filter (\<lambda>c. c_id c = conversation_id) (conversations (db s))) of
        Inl e \<Rightarrow> (Inl e, s)
      | Inr None \<Rightarrow> (Inl HTTP_404_NOT_FOUND, s)
      | Inr (Some conversation) \<Rightarrow>
          if c_type conversation \<noteq> group then (Inl HTTP_400_BAD_REQUEST, s)
          else if c_created_by conversation \<noteq> u_id current_user
          then (Inl HTTP_403_FORBIDDEN, s)
          else if length (participants_of conversation_id (db s)) \<ge> 100
          then (Inl HTTP_400_BAD_REQUEST, s)
          else
            (case scalar_one_or_none (filter (\<lambda>u. u_id u = user_id) (users (db s))) of
               Inl e \<Rightarrow> (Inl e, s)
             | Inr None \<Rightarrow> (Inl HTTP_404_NOT_FOUND, s)
             | Inr (Some added_user) \<Rightarrow>
                 (case scalar_one_or_none
                         (accepted_friendship (u_id current_user) user_id (db s)) of
                    Inl e \<Rightarrow> (Inl e, s)
                  | Inr None \<Rightarrow> (Inl HTTP_400_BAD_REQUEST, s)
                  | Inr (Some _) \<Rightarrow>
                      (case scalar_one_or_none
                              (participant_rows conversation_id user_id (db s)) of
                         Inl e \<Rightarrow> (Inl e, s)
                       | Inr (Some _) \<Rightarrow> (Inl HTTP_400_BAD_REQUEST, s)
                       | Inr None \<Rightarrow>
                           (let system_message = flush_message now
                                  (Message_init new_id conversation_id None
                                     (u_display_name current_user @ '' da them ''
                                        @ u_display_name added_user @ '' vao nhom'')
                                     None (Some ''system'') None);
                                conversation' =
                                  conversation\<lparr>c_updated_at := m_created_at system_message\<rparr>;
                                d = update_conversation conversation'
                                      ((db s)\<lparr>participants := participants (db s)
                                                  @ [new_participant conversation_id user_id now],
                                               messages := messages (db s) @ [system_message]\<rparr>);
                                s1 = with_mod (broadcast_to_conversation
                                                 (system_chat_message system_message now)
                                                 conversation_id None)
                                       (s\<lparr>db := d\<rparr>);
                                s2 = with_mod (send_personal_message
                                                 (new_conversation_message conversation' d now)
                                                 user_id) s1
                            in (Inr ''Participant added successfully'',
                                s2\<lparr>mod_manager :=
                                     add_user_to_conversation user_id conversation_id
                                       (mod_manager s2)\<rparr>))))))"

definition remove_participant ::
  "uuid \<Rightarrow> uuid \<Rightarrow> User \<Rightarrow> system \<Rightarrow> (error + unit) \<times> system"
where
  "remove_participant conversation_id user_id current_user s =
     (case scalar_one_or_none (filter (\<lambda>c. c_id c = conversation_id) (conversations (db s))) of
        Inl e \<Rightarrow> (Inl e, s)
      | Inr None \<Rightarrow> (Inl HTTP_404_NOT_FOUND, s)
      | Inr (Some conversation) \<Rightarrow>
          if c_type conversation \<noteq> group then (Inl HTTP_400_BAD_REQUEST, s)
          else if user_id \<noteq> u_id current_user \<and> c_created_by conversation \<noteq> u_id current_user
          then (Inl HTTP_403_FORBIDDEN, s)
          else
            (case scalar_one_or_none (participant_rows conversation_id user_id (db s)) of
               Inl e \<Rightarrow> (Inl e, s)
             | Inr None \<Rightarrow> (Inl HTTP_404_NOT_FOUND, s)
             | Inr (Some participant) \<Rightarrow>
                 (Inr (), s\<lparr>db := delete_participant participant (db s)\<rparr>)))"

text \<open>
  The loop of \<open>add_participants_batch\<close>. Its queries read the store as the request
  found it: the participants it has added are pending in the session and are flushed
  only after the loop, by the \<open>flush()\<close> that follows the system message. A user id
  that the request repeats is pending twice, and that flush raises \<open>IntegrityError\<close>.
\<close>

fun batch_loop ::
  "uuid \<Rightarrow> User \<Rightarrow> datetime \<Rightarrow> database \<Rightarrow> uuid list
     \<Rightarrow> ConversationParticipant list \<times> User list
     \<Rightarrow> error + ConversationParticipant list \<times> User list"
where
  "batch_loop conversation_id current_user now d [] acc = Inr acc"
| "batch_loop conversation_id current_user now d (user_id # user_ids) acc =
     (case scalar_one_or_none (filter (\<lambda>u. u_id u = user_id) (users d)) of
        Inl e \<Rightarrow> Inl e
      | Inr None \<Rightarrow> Inl HTTP_404_NOT_FOUND
      | Inr (Some user) \<Rightarrow>
          (case scalar_one_or_none (accepted_friendship (u_id current_user) user_id d) of
             Inl e \<Rightarrow> Inl e
           | Inr None \<Rightarrow> Inl HTTP_400_BAD_REQUEST
           | Inr (Some _) \<Rightarrow>
               (case scalar_one_or_none (participant_rows conversation_id user_id d) of
                  Inl e \<Rightarrow> Inl e
                | Inr (Some _) \<Rightarrow> batch_loop conversation_id current_user now d user_ids acc
                | Inr None \<Rightarrow>
                    batch_loop conversation_id current_user now d user_ids
                      (fst acc @ [new_participant conversation_id user_id now],
                       snd acc @ [user]))))"

fun join_names :: "string list \<Rightarrow> string" where
  "join_names [] = []"
| "join_names [name] = name"
| "join_names (name # names) = name @ '', '' @ join_names names"

definition added_names :: "string list \<Rightarrow> string" where
  "added_names user_names =
     (if length user_names = 1 then hd user_names
      else join_names (butlast user_names) @ '' va '' @ last user_names)"

record BatchResponse =
  br_message :: string
  br_added_count :: nat

text \<open>\<open>str\<close> of a non-negative integer, for the f-string of the response.\<close>

fun str_nat :: "nat \<Rightarrow> string" where
  "str_nat n =
     (if n < 10 then [''0123456789'' ! n]
      else str_nat (n div 10) @ [''0123456789'' ! (n mod 10)])"

declare str_nat.simps [simp del]

definition batch_response :: "User list \<Rightarrow> BatchResponse" where
  "batch_response added_users =
     \<lparr>br_message = ''Added '' @ str_nat (length added_users)
                     @ '' participant(s) successfully'',
      br_added_count = length added_users\<rparr>"

definition add_participants_batch ::
  "uuid \<Rightarrow> uuid list \<Rightarrow> User \<Rightarrow> uuid \<Rightarrow> datetime \<Rightarrow> system \<Rightarrow> (error + BatchResponse) \<times> system"
where
  "add_participants_batch conversation_id user_ids current_user new_id now s =
     (case scalar_one_or_none (filter (\<lambda>c. c_id c = conversation_id) (conversations (db s))) of
        Inl e \<Rightarrow> (Inl e, s)
      | Inr None \<Rightarrow> (Inl HTTP_404_NOT_FOUND, s)
      | Inr (Some conversation) \<Rightarrow>
          if c_type conversation \<noteq> group then (Inl HTTP_400_BAD_REQUEST, s)
          else if c_created_by conversation \<noteq> u_id current_user
          then (Inl HTTP_403_FORBIDDEN, s)
          else if length (participants_of conversation_id (db s)) + length user_ids > 100
          then (Inl HTTP_400_BAD_REQUEST, s)
          else
            (case batch_loop conversation_id current_user now (db s) user_ids ([], []) of
               Inl e \<Rightarrow> (Inl e, s)
             | Inr (new_participants, added_users) \<Rightarrow>
                 if added_users = []
                 then (Inr (batch_response added_users), s)
                 else if \<not> insertable new_participants (participants (db s))
                 then (Inl IntegrityError, s)
                 else
                   (let system_message = flush_message now
                          (Message_init new_id conversation_id None
                             (u_display_name current_user @ '' da them ''
                                @ added_names (map u_display_name added_users)
                                @ '' vao nhom'')
                             None (Some ''system'') None);
                        conversation' =
                          conversation\<lparr>c_updated_at := m_created_at system_message\<rparr>;
                        d = update_conversation conversation'
                              ((db s)\<lparr>participants := participants (db s) @ new_participants,
                                       messages := messages (db s) @ [system_message]\<rparr>);
                        s1 = with_mod (broadcast_to_conversation
                                         (system_chat_message system_message now)
                                         conversation_id None)
                               (s\<lparr>db := d\<rparr>);
                        new_conv_msg = new_conversation_message conversation' d now
                    in (Inr (batch_response added_users),
                        fold (\<lambda>added_user s'.
                                (let s'' = with_mod (send_personal_message new_conv_msg
                                                       (u_id added_user)) s'
                                 in s''\<lparr>mod_manager :=
                                         add_user_to_conversation (u_id added_user)
                                           conversation_id (mod_manager s'')\<rparr>))
                          added_users s1))))"

text \<open>
  Deleting a conversation cascades to its participants and messages, and from the
  messages to their reactions (\<open>cascade="all, delete-orphan"\<close>).
\<close>

definition delete_conversation_cascade :: "uuid \<Rightarrow> database \<Rightarrow> database" where
  "delete_conversation_cascade conversation_id d =
     d\<lparr>conversations := filter (\<lambda>c. c_id c \<noteq> conversation_id) (conversations d),
       participants := filter (\<lambda>p. p_conversation_id p \<noteq> conversation_id) (participants d),
       messages := filter (\<lambda>m. m_conversation_id m \<noteq> conversation_id) (messages d),
       reactions :=
         filter (\<lambda>r. r_message_id r
                        \<notin> m_id ` set (filter (\<lambda>m. m_conversation_id m = conversation_id)
                                        (messages d)))
           (reactions d)\<rparr>"

definition leave_conversation ::
  "uuid \<Rightarrow> User \<Rightarrow> uuid \<Rightarrow> uuid \<Rightarrow> datetime \<Rightarrow> system \<Rightarrow> (error + unit) \<times> system"
where
  "leave_conversation conversation_id current_user new_id new_id' now s =
     (case scalar_one_or_none
             (participant_rows conversation_id (u_id current_user) (db s)) of
        Inl e \<Rightarrow> (Inl e, s)
      | Inr None \<Rightarrow> (Inl HTTP_404_NOT_FOUND, s)
      | Inr (Some participant) \<Rightarrow>
          (case scalar_one (filter (\<lambda>c. c_id c = conversation_id) (conversations (db s))) of
             Inl e \<Rightarrow> (Inl e, s)
           | Inr conversation \<Rightarrow>
               if c_type conversation = group then
                 (let system_message = flush_message now
                        (Message_init new_id conversation_id None
                           (u_display_name current_user @ '' da roi khoi nhom'')
                           None (Some ''system'') None);
                      conversation' =
                        conversation\<lparr>c_updated_at := m_created_at system_message\<rparr>;
                      d = update_conversation conversation'
                            ((delete_participant participant (db s))
                               \<lparr>messages := messages (db s) @ [system_message]\<rparr>);
                      remaining_count = length (participants_of conversation_id d)
                  in if remaining_count = 1 then
                       (let last_participant = hd (participants_of conversation_id d);
                            disband_message = flush_message now
                              (Message_init new_id' conversation_id None
                                 ''Nhom da tu dong giai tan vi chi con lai ban''
                                 None (Some ''system'') None);
                            d' = d\<lparr>messages := messages d @ [disband_message]\<rparr>;
                            s1 = with_mod (send_personal_message
                                             (system_chat_message disband_message now)
                                             (p_user_id last_participant))
                                   (s\<lparr>db := d'\<rparr>)
                        in (Inr (), s1\<lparr>db := delete_conversation_cascade conversation_id d'\<rparr>))
                     else
                       (Inr (),
                        with_mod (broadcast_to_conversation
                                    (system_chat_message system_message now)
                                    conversation_id (Some (u_id current_user)))
                          (s\<lparr>db := d\<rparr>)))
               else (Inr (), s\<lparr>db := delete_participant participant (db s)\<rparr>)))"

section \<open>What a broadcast puts on the wire\<close>

text \<open>
  \<open>deliverable\<close>: the user has a registered transport and its \<open>send_json\<close> does not
  raise. \<open>frames\<close>: the frames that sending \<open>message\<close> to the users \<open>user_ids\<close>, in this
  order, appends to \<open>sent\<close>.
\<close>

definition deliverable :: "ConnectionManager \<Rightarrow> transports \<Rightarrow> uuid \<Rightarrow> bool" where
  "deliverable m t user_id =
     (case map_of (active_connections m) user_id of
        None \<Rightarrow> False | Some websocket \<Rightarrow> websocket \<notin> broken t)"

definition frames ::
  "WSMessage \<Rightarrow> ConnectionManager \<Rightarrow> transports \<Rightarrow> uuid list \<Rightarrow> (websocket \<times> WSMessage) list"
where
  "frames message m t user_ids =
     map (\<lambda>user_id. (the (map_of (active_connections m) user_id), message))
       (filter (deliverable m t) user_ids)"

text \<open>The events the handlers build, named for the statements below.\<close>

definition read_event :: "Message \<Rightarrow> User \<Rightarrow> datetime \<Rightarrow> WSMessage" where
  "read_event message current_user now =
     \<lparr>ws_type = MESSAGE_READ,
      ws_data = WSMessageRead (m_conversation_id message) (m_id message) (u_id current_user)
                  (u_username current_user) now,
      ws_timestamp = now\<rparr>"

definition reaction_added_event :: "Message \<Rightarrow> User \<Rightarrow> string \<Rightarrow> datetime \<Rightarrow> WSMessage" where
  "reaction_added_event message current_user emoji now =
     \<lparr>ws_type = REACTION_ADDED,
      ws_data = WSReactionAdded (m_conversation_id message) (m_id message) (u_id current_user)
                  (u_username current_user) emoji (Some now),
      ws_timestamp = now\<rparr>"

definition reaction_removed_event :: "Message \<Rightarrow> User \<Rightarrow> string \<Rightarrow> datetime \<Rightarrow> WSMessage" where
  "reaction_removed_event message current_user emoji now =
     \<lparr>ws_type = REACTION_REMOVED,
      ws_data = WSReactionRemoved (m_conversation_id message) (m_id message)
                  (u_id current_user) emoji,
      ws_timestamp = now\<rparr>"

section \<open>A small running system\<close>

text \<open>
  Three users in one group conversation (10, created by user 1) that holds a system
  message (7) and a message of user 1 with an attachment (8). Nobody is connected.
\<close>

definition demo_user :: "uuid \<Rightarrow> User" where
  "demo_user i = \<lparr>u_id = i, u_username = ''user'', u_display_name = ''User''\<rparr>"

definition demo_io :: transports where
  "demo_io = \<lparr>accepted = [], closed = [], sent = [], broken = {}\<rparr>"

definition demo_group :: Conversation where
  "demo_group = \<lparr>c_id = 10, c_type = group, c_title = Some ''team'', c_created_by = 1,
     c_created_at = Some 1, c_updated_at = Some 1\<rparr>"

definition demo_system_message :: Message where
  "demo_system_message = flush_message 2
     (Message_init 7 10 None ''User da roi khoi nhom'' None (Some ''system'') None)"

definition demo_text_message :: Message where
  "demo_text_message = flush_message 3
     (Message_init 8 10 (Some 1) ''hello'' (Some ''/f.png'') (Some ''image/png'')
        (Some ''f.png''))"

definition demo_db :: database where
  "demo_db = \<lparr>users = [demo_user 1, demo_user 2, demo_user 3],
     conversations = [demo_group],
     participants = [new_participant 10 1 1, new_participant 10 2 1, new_participant 10 3 1],
     messages = [demo_system_message, demo_text_message],
     reactions = [], friendships = []\<rparr>"

definition demo_system :: system where
  "demo_system = \<lparr>db = demo_db, pkg_manager = new_manager, mod_manager = new_manager,
     io = demo_io\<rparr>"

text \<open>User 4 reacted to message 8 and is not (or no longer) in conversation 10.\<close>

definition demo_reaction :: MessageReaction where
  "demo_reaction = \<lparr>r_id = 30, r_message_id = 8, r_user_id = 4, r_emoji = ''+1'',
     r_created_at = Some 4\<rparr>"

definition demo_reacted :: system where
  "demo_reacted = demo_system\<lparr>db := demo_db\<lparr>reactions := [demo_reaction]\<rparr>\<rparr>"

text \<open>The row that user 2's first \<open>+1\<close> on message 8 stores.\<close>

definition demo_plus_one :: MessageReaction where
  "demo_plus_one = \<lparr>r_id = 31, r_message_id = 8, r_user_id = 2, r_emoji = ''+1'',
     r_created_at = Some 9\<rparr>"

text \<open>User 1 once rejected a request of user 2, and is a friend of user 3.\<close>

definition demo_rejected :: Friendship where
  "demo_rejected = \<lparr>f_id = 40, f_user_id = 2, f_friend_id = 1, f_status = ''rejected'',
     f_created_at = Some 1, f_updated_at = Some 2\<rparr>"

definition demo_accepted :: Friendship where
  "demo_accepted = \<lparr>f_id = 41, f_user_id = 1, f_friend_id = 3, f_status = ''accepted'',
     f_created_at = Some 1, f_updated_at = Some 2\<rparr>"

definition demo_friends :: system where
  "demo_friends = demo_system\<lparr>db := demo_db\<lparr>friendships := [demo_rejected, demo_accepted]\<rparr>\<rparr>"

section \<open>Scenarios\<close>

text \<open>
  User 1 opens a WebSocket (transport 100) and then leaves conversation 10; user 3 opens
  one (transport 300) and is then removed from conversation 10 by its creator.
\<close>

definition departed_connected :: system where
  "departed_connected = websocket_endpoint 100 (demo_user 1) 4 demo_system"

definition departed_left :: system where
  "departed_left = snd (leave_conversation 10 (demo_user 1) 20 21 5 departed_connected)"

definition removed_connected :: system where
  "removed_connected = websocket_endpoint 300 (demo_user 3) 4 demo_system"

definition removed_kicked :: system where
  "removed_kicked = snd (remove_participant 10 3 (demo_user 1) removed_connected)"

text \<open>Conversation 10 with only the users 1 and 2, both connected.\<close>

definition pair_system :: system where
  "pair_system = demo_system\<lparr>db := demo_db\<lparr>participants :=
     [new_participant 10 1 1, new_participant 10 2 1]\<rparr>\<rparr>"

definition pair_online :: system where
  "pair_online = websocket_endpoint 200 (demo_user 2) 4
     (websocket_endpoint 100 (demo_user 1) 4 pair_system)"

text \<open>
  Two users without any conversation connect; user 1 then creates the direct conversation
  10 with user 2 and writes to it.
\<close>

definition fresh_system :: system where
  "fresh_system = \<lparr>db = \<lparr>users = [demo_user 1, demo_user 2], conversations = [],
       participants = [], messages = [], reactions = [], friendships = []\<rparr>,
     pkg_manager = new_manager, mod_manager = new_manager, io = demo_io\<rparr>"

definition fresh_online :: system where
  "fresh_online = websocket_endpoint 200 (demo_user 2) 4
     (websocket_endpoint 100 (demo_user 1) 4 fresh_system)"

definition fresh_direct :: system where
  "fresh_direct = snd (create_conversation
     \<lparr>cc_type = direct, cc_title = None, cc_participant_ids = [2]\<rparr> (demo_user 1) 10 5
     fresh_online)"

definition hello :: MessageCreate where
  "hello = \<lparr>mc_conversation_id = 10, mc_content = ''hi'', mc_file_url = None,
     mc_file_type = None, mc_file_name = None\<rparr>"

text \<open>
  Three users, user 1 a friend of user 3, no conversation yet. Users 1 and 2 connect;
  user 1 then creates the group 10 with user 2 and adds user 3 to it, which stores the
  system message 20.
\<close>

definition circle_system :: system where
  "circle_system = \<lparr>db = \<lparr>users = [demo_user 1, demo_user 2, demo_user 3],
       conversations = [], participants = [], messages = [], reactions = [],
       friendships = [demo_accepted]\<rparr>,
     pkg_manager = new_manager, mod_manager = new_manager, io = demo_io\<rparr>"

definition circle_online :: system where
  "circle_online = websocket_endpoint 200 (demo_user 2) 4
     (websocket_endpoint 100 (demo_user 1) 4 circle_system)"

definition circle_group :: system where
  "circle_group = snd (create_conversation
     \<lparr>cc_type = group, cc_title = Some ''team'', cc_participant_ids = [2]\<rparr> (demo_user 1) 10 5
     circle_online)"

definition circle_grown :: system where
  "circle_grown = snd (add_participant 10 3 (demo_user 1) 20 6 circle_group)"

text \<open>A hundred and one users; user 0 asks for a group with the hundred others.\<close>

definition crowd_system :: system where
  "crowd_system = \<lparr>db = \<lparr>users = map demo_user [0..<101], conversations = [],
       participants = [], messages = [], reactions = [], friendships = []\<rparr>,
     pkg_manager = new_manager, mod_manager = new_manager, io = demo_io\<rparr>"

definition crowd_request :: ConversationCreate where
  "crowd_request = \<lparr>cc_type = group, cc_title = Some ''crowd'',
     cc_participant_ids = [1..<101]\<rparr>"

section \<open>Lemmas on rows and broadcasts\<close>

lemma filter_replace:
  "P y \<Longrightarrow> filter P (map (\<lambda>row. if P row then y else row) xs) = map (\<lambda>_. y) (filter P xs)"
  by (induction xs) auto

lemma single_row_member: "filter P xs = [x] \<Longrightarrow> P x"
proof -
  assume "filter P xs = [x]"
  then have "x \<in> set (filter P xs)" by simp
  then show "P x" by simp
qed

lemma filter_update_unique:
  assumes "distinct (map key xs)" and "filter P xs = [x]" and "P y"
  shows "filter P (map (\<lambda>row. if key row = key x then y else row) xs) = [y]"
  using assms
proof (induction xs)
  case Nil
  then show ?case by simp
next
  case (Cons a xs)
  show ?case
  proof (cases "P a")
    case True
    with Cons.prems have ax: "a = x" and rest: "filter P xs = []" by simp_all
    from Cons.prems(1) ax have "key x \<notin> key ` set xs" by simp
    then have "\<forall>r \<in> set xs. key r \<noteq> key x" by (metis imageI)
    then have "map (\<lambda>row. if key row = key x then y else row) xs = xs"
      by (induction xs) auto
    with True ax rest Cons.prems(3) show ?thesis by simp
  next
    case False
    with Cons.prems have rest: "filter P xs = [x]" by simp
    then have "x \<in> set (filter P xs)" by simp
    then have "x \<in> set xs" by simp
    with Cons.prems(1) have "key a \<noteq> key x" by auto
    with False Cons.IH rest Cons.prems show ?thesis by simp
  qed
qed

lemma filter_delete_unique:
  assumes "filter P xs = [x]"
  shows "filter P (filter (\<lambda>r. key r \<noteq> key x) xs) = []"
proof -
  have "filter P (filter (\<lambda>r. key r \<noteq> key x) xs)
          = filter (\<lambda>r. key r \<noteq> key x) (filter P xs)"
    by (induction xs) auto
  with assms show ?thesis by simp
qed

lemma participant_rows_update:
  assumes "participant_rows c u d = [p]"
  shows "participant_rows c u (update_participant (p\<lparr>p_last_read_message_id := x\<rparr>) d)
           = [p\<lparr>p_last_read_message_id := x\<rparr>]"
proof -
  have k: "p_conversation_id p = c \<and> p_user_id p = u"
    using single_row_member [of "\<lambda>p. p_conversation_id p = c \<and> p_user_id p = u"]
      assms by (simp add: participant_rows_def)
  show ?thesis
    using assms k
      filter_replace [of "\<lambda>p. p_conversation_id p = c \<and> p_user_id p = u"
        "p\<lparr>p_last_read_message_id := x\<rparr>" "participants d"]
    by (simp add: participant_rows_def update_participant_def)
qed

lemma participant_rows_update_message [simp]:
  "participant_rows c u (update_message m d) = participant_rows c u d"
  by (simp add: participant_rows_def update_message_def)

lemma messages_update_participant [simp]:
  "messages (update_participant p d) = messages d"
  by (simp add: update_participant_def)

lemma messages_update_message:
  assumes "filter (\<lambda>m. m_id m = mid) (messages d) = [m]" and "m_id m' = mid"
  shows "filter (\<lambda>m. m_id m = mid) (messages (update_message m' d)) = [m']"
  using assms filter_replace [of "\<lambda>m. m_id m = mid" m' "messages d"]
  by (simp add: update_message_def)

lemma broken_send_personal_message [simp]:
  "broken (snd (send_personal_message message u st)) = broken (snd st)"
  by (cases st) (simp add: send_personal_message_def split: option.splits)

lemma frames_disconnect:
  "map_of (active_connections m) u = Some w \<Longrightarrow> w \<in> broken t \<Longrightarrow>
   frames message (disconnect u m) t us = frames message m t us"
proof -
  assume a: "map_of (active_connections m) u = Some w" and b: "w \<in> broken t"
  have d: "deliverable (disconnect u m) t v = deliverable m t v" for v
    using a b by (simp add: deliverable_def disconnect_def delete_conv')
  have e: "deliverable m t v \<Longrightarrow>
       map_of (active_connections (disconnect u m)) v = map_of (active_connections m) v" for v
    using a b by (auto simp: deliverable_def disconnect_def delete_conv')
  show ?thesis
    unfolding frames_def using d e
    by (induction us) auto
qed

lemma deliverable_sent [simp]:
  "deliverable m (t\<lparr>sent := x\<rparr>) = deliverable m t"
  by (rule ext) (simp add: deliverable_def split: option.splits)

lemma frames_sent [simp]:
  "frames message m (t\<lparr>sent := x\<rparr>) us = frames message m t us"
  by (simp add: frames_def)

lemma sent_fold_send:
  "sent (snd (fold (send_personal_message message) us (m, t)))
     = sent t @ frames message m t us"
proof (induction us arbitrary: m t)
  case Nil
  then show ?case by (simp add: frames_def)
next
  case (Cons u us)
  show ?case
  proof (cases "map_of (active_connections m) u")
    case None
    then have "send_personal_message message u (m, t) = (m, t)"
      by (simp add: send_personal_message_def)
    moreover from None have "frames message m t (u # us) = frames message m t us"
      by (simp add: frames_def deliverable_def)
    ultimately show ?thesis using Cons.IH by simp
  next
    case (Some w)
    show ?thesis
    proof (cases "w \<in> broken t")
      case True
      with Some have "send_personal_message message u (m, t) = (disconnect u m, t)"
        by (simp add: send_personal_message_def)
      moreover from Some True
      have "frames message m t (u # us) = frames message m t us"
        by (simp add: frames_def deliverable_def)
      ultimately show ?thesis
        using Cons.IH [of "disconnect u m" t] frames_disconnect [OF Some True]
        by simp
    next
      case False
      with Some have "send_personal_message message u (m, t)
          = (m, t\<lparr>sent := sent t @ [(w, message)]\<rparr>)"
        by (simp add: send_personal_message_def)
      moreover from Some False
      have "frames message m t (u # us) = (w, message) # frames message m t us"
        by (simp add: frames_def deliverable_def)
      ultimately show ?thesis
        using Cons.IH [of m "t\<lparr>sent := sent t @ [(w, message)]\<rparr>"]
        by simp
    qed
  qed
qed

lemma sent_broadcast:
  "sent (snd (broadcast_to_conversation message c ex (m, t)))
     = sent t @ frames message m t (target_users c ex m)"
  by (simp add: broadcast_to_conversation_def sent_fold_send)

lemma io_with_pkg_broadcast:
  "sent (io (with_pkg (broadcast_to_conversation message c ex) s))
     = sent (io s) @ frames message (pkg_manager s) (io s) (target_users c ex (pkg_manager s))"
  using sent_broadcast [of message c ex "pkg_manager s" "io s"]
  by (cases "broadcast_to_conversation message c ex (pkg_manager s, io s)")
     (simp add: with_pkg_def)

lemma db_with_pkg [simp]: "db (with_pkg f s) = db s"
  by (simp add: with_pkg_def Let_def split: prod.splits)

lemma db_with_mod [simp]: "db (with_mod f s) = db s"
  by (simp add: with_mod_def Let_def split: prod.splits)

lemma excluded_not_target:
  "u \<notin> set (target_users c (Some u) m)"
  by (auto simp: target_users_def)

lemmas demo_defs = demo_system_def demo_db_def demo_user_def demo_io_def demo_group_def
  demo_system_message_def demo_text_message_def Message_init_def flush_message_def
  new_participant_def new_manager_def

lemmas handler_defs = websocket_endpoint_def load_user_conversations_def with_pkg_def
  with_mod_def connect_def send_personal_message_def broadcast_to_all_def
  broadcast_to_conversation_def target_users_def add_user_to_conversation_def
  disconnect_def send_to_user_def participant_rows_def participants_of_def
  update_conversation_def update_message_def update_participant_def delete_participant_def
  system_chat_message_def new_conversation_message_def build_conversation_response_def
  delete_conversation_cascade_def reaction_rows_def Let_def

section \<open>The presence registry keeps one session per user\<close>

lemma filter_key_distinct:
  "distinct (map fst al) \<Longrightarrow> length (filter (\<lambda>e. fst e = u) al) \<le> 1"
proof (induction al)
  case Nil
  then show ?case by simp
next
  case (Cons a al)
  show ?case
  proof (cases "fst a = u")
    case True
    with Cons.prems have "u \<notin> fst ` set al" by auto
    then have "filter (\<lambda>e. fst e = u) al = []"
      by (auto simp: filter_empty_conv)
    with True show ?thesis by simp
  next
    case False
    with Cons show ?thesis by simp
  qed
qed

lemma filter_key_update:
  "distinct (map fst al) \<Longrightarrow> filter (\<lambda>e. fst e = u) (AList.update u v al) = [(u, v)]"
proof (induction al)
  case Nil
  then show ?case by simp
next
  case (Cons a al)
  obtain k w where a: "a = (k, w)" by (cases a)
  show ?case
  proof (cases "k = u")
    case True
    with Cons.prems a have "u \<notin> fst ` set al" by auto
    then have "filter (\<lambda>e. fst e = u) al = []"
      by (auto simp: filter_empty_conv)
    with True a show ?thesis by simp
  next
    case False
    with Cons a show ?thesis by simp
  qed
qed

lemma registry_step_distinct:
  "distinct (map fst (active_connections (fst st))) \<Longrightarrow>
   distinct (map fst (active_connections (fst (registry_step op st))))"
  by (cases op; cases st)
     (simp_all add: connect_def disconnect_def Let_def distinct_update distinct_delete
        split: option.splits)

lemma registry_run_distinct:
  "distinct (map fst (active_connections (fst st))) \<Longrightarrow>
   distinct (map fst (active_connections (fst (fold registry_step ops st))))"
  by (induction ops arbitrary: st) (simp_all add: registry_step_distinct)

text \<open>
  Claim C3. Start from the empty registry of \<open>__init__\<close> and run any sequence of
  \<open>connect\<close> and \<open>disconnect\<close> calls. Then every user has at most one entry in
  \<open>active_connections\<close>; a further \<open>connect\<close> of user \<open>u\<close> with transport \<open>ws\<close> leaves
  \<open>ws\<close> as the only entry of \<open>u\<close>; and if \<open>u\<close> had a transport \<open>old\<close> before, that
  \<open>connect\<close> calls \<open>close\<close> on \<open>old\<close>.
\<close>

theorem single_session_per_user:
  "length (sessions_of v (fst (fold registry_step ops (new_manager, io0)))) \<le> 1
   \<and> sessions_of u (fst (connect ws u (fold registry_step ops (new_manager, io0)))) = [ws]
   \<and> (\<forall>old. map_of (active_connections (fst (fold registry_step ops (new_manager, io0)))) u
               = Some old \<longrightarrow>
          closed (snd (connect ws u (fold registry_step ops (new_manager, io0))))
            = closed (snd (fold registry_step ops (new_manager, io0))) @ [old])"
proof -
  define st where "st = fold registry_step ops (new_manager, io0)"
  have d: "distinct (map fst (active_connections (fst st)))"
    unfolding st_def by (rule registry_run_distinct) (simp add: new_manager_def)
  have a: "length (sessions_of v (fst st)) \<le> 1"
    using filter_key_distinct [OF d] by (simp add: sessions_of_def)
  have b: "sessions_of u (fst (connect ws u st)) = [ws]"
    using filter_key_update [OF d, of u ws]
    by (cases st) (simp add: sessions_of_def connect_def Let_def split: option.splits)
  have c: "\<forall>old. map_of (active_connections (fst st)) u = Some old \<longrightarrow>
             closed (snd (connect ws u st)) = closed (snd st) @ [old]"
    by (cases st) (simp add: connect_def Let_def)
  from a b c show ?thesis unfolding st_def by blast
qed

theorem single_session_per_user_witness:
  "map_of (active_connections (fst (fold registry_step [Connect 100 1] (new_manager,
       \<lparr>accepted = [], closed = [], sent = [], broken = {}\<rparr>)))) 1 = Some 100
   \<and> sessions_of 1 (fst (connect 101 1 (fold registry_step [Connect 100 1] (new_manager,
       \<lparr>accepted = [], closed = [], sent = [], broken = {}\<rparr>)))) = [101]
   \<and> closed (snd (connect 101 1 (fold registry_step [Connect 100 1] (new_manager,
       \<lparr>accepted = [], closed = [], sent = [], broken = {}\<rparr>)))) = [100]"
  using single_session_per_user [of 1 "[Connect 100 1]"
      "\<lparr>accepted = [], closed = [], sent = [], broken = {}\<rparr>" 1 101]
  by (simp add: connect_def new_manager_def Let_def)

section \<open>System messages cannot be edited or deleted\<close>

text \<open>
  Claim C10. A message whose sender is null fails the ownership check of \<open>edit_message\<close>
  and of \<open>delete_message\<close> for every user: both answer 403 Forbidden and leave the whole
  state as it was.
\<close>

theorem system_message_immutable:
  assumes "filter (\<lambda>m. m_id m = message_id) (messages (db s)) = [message]"
    and "m_sender_id message = None"
  shows "edit_message message_id content current_user now s = (Inl HTTP_403_FORBIDDEN, s)
       \<and> delete_message message_id current_user now s = (Inl HTTP_403_FORBIDDEN, s)"
  using assms by (simp add: edit_message_def delete_message_def)

theorem system_message_immutable_witness:
  "filter (\<lambda>m. m_id m = 7) (messages (db demo_system)) = [demo_system_message]
   \<and> m_sender_id demo_system_message = None
   \<and> edit_message 7 ''x'' (demo_user 2) 9 demo_system = (Inl HTTP_403_FORBIDDEN, demo_system)
   \<and> delete_message 7 (demo_user 2) 9 demo_system = (Inl HTTP_403_FORBIDDEN, demo_system)"
proof -
  have a: "filter (\<lambda>m. m_id m = 7) (messages (db demo_system)) = [demo_system_message]"
    by (simp add: demo_defs)
  have b: "m_sender_id demo_system_message = None"
    by (simp add: demo_defs)
  from system_message_immutable [OF a b] a b show ?thesis by simp
qed

section \<open>Soft deletion is final\<close>

text \<open>
  Claim C5, as amended. A message whose deletion flag is \<open>"true"\<close> rejects every further
  edit and every further delete, from any user, with no state change. A successful
  delete sets the flag, sets the three file fields to null and replaces the content
  with the notice \<open>"This message was deleted"\<close>.
\<close>

theorem soft_deleted_message_is_final:
  assumes "filter (\<lambda>m. m_id m = message_id) (messages (db s)) = [message]"
  shows "(m_is_deleted message = ''true'' \<longrightarrow>
            snd (edit_message message_id content current_user now s) = s
          \<and> fst (edit_message message_id content current_user now s)
               \<in> {Inl HTTP_403_FORBIDDEN, Inl HTTP_400_BAD_REQUEST}
          \<and> snd (delete_message message_id current_user now s) = s
          \<and> fst (delete_message message_id current_user now s)
               \<in> {Inl HTTP_403_FORBIDDEN, Inl HTTP_400_BAD_REQUEST})
       \<and> (m_is_deleted message \<noteq> ''true'' \<and> m_sender_id message = Some (u_id current_user) \<longrightarrow>
            fst (delete_message message_id current_user now s)
              = Inr ''Message deleted successfully''
          \<and> filter (\<lambda>m. m_id m = message_id)
               (messages (db (snd (delete_message message_id current_user now s))))
              = [message\<lparr>m_is_deleted := ''true'', m_content := ''This message was deleted'',
                         m_file_url := None, m_file_type := None, m_file_name := None\<rparr>])"
proof -
  have i: "m_id message = message_id"
    using single_row_member [OF assms] .
  have a: "m_is_deleted message = ''true'' \<longrightarrow>
            snd (edit_message message_id content current_user now s) = s
          \<and> fst (edit_message message_id content current_user now s)
               \<in> {Inl HTTP_403_FORBIDDEN, Inl HTTP_400_BAD_REQUEST}
          \<and> snd (delete_message message_id current_user now s) = s
          \<and> fst (delete_message message_id current_user now s)
               \<in> {Inl HTTP_403_FORBIDDEN, Inl HTTP_400_BAD_REQUEST}"
    using assms by (simp add: edit_message_def delete_message_def)
  have b: "m_is_deleted message \<noteq> ''true'' \<and> m_sender_id message = Some (u_id current_user) \<longrightarrow>
            fst (delete_message message_id current_user now s)
              = Inr ''Message deleted successfully''
          \<and> filter (\<lambda>m. m_id m = message_id)
               (messages (db (snd (delete_message message_id current_user now s))))
              = [message\<lparr>m_is_deleted := ''true'', m_content := ''This message was deleted'',
                         m_file_url := None, m_file_type := None, m_file_name := None\<rparr>]"
    using assms i messages_update_message [OF assms, of "message\<lparr>m_is_deleted := ''true'',
        m_content := ''This message was deleted'',
        m_file_url := None, m_file_type := None, m_file_name := None\<rparr>"]
    by (simp add: delete_message_def Let_def)
  from a b show ?thesis by blast
qed

text \<open>
  The witness deletes message 8 as its sender, then tries to edit and to delete it again.
\<close>

theorem soft_deleted_message_is_final_witness:
  "filter (\<lambda>m. m_id m = 8) (messages (db demo_system)) = [demo_text_message]
   \<and> m_is_deleted demo_text_message \<noteq> ''true''
   \<and> m_sender_id demo_text_message = Some (u_id (demo_user 1))
   \<and> fst (delete_message 8 (demo_user 1) 9 demo_system) = Inr ''Message deleted successfully''
   \<and> map m_is_deleted (filter (\<lambda>m. m_id m = 8)
        (messages (db (snd (delete_message 8 (demo_user 1) 9 demo_system))))) = [''true'']
   \<and> map m_file_url (filter (\<lambda>m. m_id m = 8)
        (messages (db (snd (delete_message 8 (demo_user 1) 9 demo_system))))) = [None]
   \<and> fst (edit_message 8 ''again'' (demo_user 1) 11
            (snd (delete_message 8 (demo_user 1) 9 demo_system)))
        \<in> {Inl HTTP_403_FORBIDDEN, Inl HTTP_400_BAD_REQUEST}
   \<and> snd (delete_message 8 (demo_user 1) 11
            (snd (delete_message 8 (demo_user 1) 9 demo_system)))
        = snd (delete_message 8 (demo_user 1) 9 demo_system)"
proof -
  have a: "filter (\<lambda>m. m_id m = 8) (messages (db demo_system)) = [demo_text_message]"
    by (simp add: demo_defs)
  have b: "m_is_deleted demo_text_message \<noteq> ''true''"
    and c: "m_sender_id demo_text_message = Some (u_id (demo_user 1))"
    by (simp_all add: demo_defs)
  note first = soft_deleted_message_is_final [OF a, where current_user = "demo_user 1"
      and now = 9]
  from first b c
  have d: "filter (\<lambda>m. m_id m = 8)
               (messages (db (snd (delete_message 8 (demo_user 1) 9 demo_system))))
             = [demo_text_message\<lparr>m_is_deleted := ''true'',
                  m_content := ''This message was deleted'',
                  m_file_url := None, m_file_type := None, m_file_name := None\<rparr>]"
    by blast
  note again = soft_deleted_message_is_final [OF d, where current_user = "demo_user 1"
      and now = 11 and content = "''again''"]
  from first again a b c d show ?thesis by simp
qed

text \<open>
  The claim as stated fails: after the deletion the content reads back as the notice,
  which is not empty.
\<close>

theorem deleted_content_is_notice_counterexample:
  "m_is_deleted demo_text_message \<noteq> ''true''
   \<and> fst (delete_message 8 (demo_user 1) 9 demo_system) = Inr ''Message deleted successfully''
   \<and> map m_content (filter (\<lambda>m. m_id m = 8)
        (messages (db (snd (delete_message 8 (demo_user 1) 9 demo_system)))))
       = [''This message was deleted'']
   \<and> ''This message was deleted'' \<noteq> ''''"
  by (simp add: delete_message_def Let_def update_message_def with_pkg_def
        broadcast_to_conversation_def target_users_def demo_defs)

section \<open>Read receipts\<close>

lemma mark_read_first:
  assumes msg: "filter (\<lambda>m. m_id m = message_id) (messages (db s)) = [message]"
    and part: "participant_rows (m_conversation_id message) (u_id current_user) (db s)
                 = [participant]"
    and other: "m_sender_id message \<noteq> Some (u_id current_user)"
  shows "fst (mark_message_as_read message_id current_user now s)
           = Inr \<lparr>mr_message_id = message_id, mr_read_at = now,
                  mr_read_by_user_id = u_id current_user\<rparr>"
    and "filter (\<lambda>m. m_id m = message_id)
           (messages (db (snd (mark_message_as_read message_id current_user now s))))
           = [message\<lparr>m_read_at := Some now, m_read_by_user_id := Some (u_id current_user)\<rparr>]"
    and "participant_rows (m_conversation_id message) (u_id current_user)
           (db (snd (mark_message_as_read message_id current_user now s)))
           = [participant\<lparr>p_last_read_message_id := Some message_id\<rparr>]"
    and "sent (io (snd (mark_message_as_read message_id current_user now s)))
           = sent (io s) @ frames (read_event message current_user now) (pkg_manager s) (io s)
               (target_users (m_conversation_id message) (Some (u_id current_user))
                  (pkg_manager s))"
proof -
  have i: "m_id message = message_id"
    using single_row_member [OF msg] .
  let ?m' = "message\<lparr>m_read_at := Some now, m_read_by_user_id := Some (u_id current_user)\<rparr>"
  let ?p' = "participant\<lparr>p_last_read_message_id := Some message_id\<rparr>"
  let ?d = "update_participant ?p' (update_message ?m' (db s))"
  have run: "mark_message_as_read message_id current_user now s
      = (Inr \<lparr>mr_message_id = message_id, mr_read_at = now,
               mr_read_by_user_id = u_id current_user\<rparr>,
         with_pkg (broadcast_to_conversation (read_event message current_user now)
                     (m_conversation_id message) (Some (u_id current_user)))
           (s\<lparr>db := ?d\<rparr>))"
    using msg part other i
    by (simp add: mark_message_as_read_def Let_def read_event_def)
  show "fst (mark_message_as_read message_id current_user now s)
           = Inr \<lparr>mr_message_id = message_id, mr_read_at = now,
                  mr_read_by_user_id = u_id current_user\<rparr>"
    by (simp add: run)
  show "filter (\<lambda>m. m_id m = message_id)
           (messages (db (snd (mark_message_as_read message_id current_user now s))))
           = [?m']"
    using messages_update_message [OF msg, of ?m'] i by (simp add: run)
  show "participant_rows (m_conversation_id message) (u_id current_user)
           (db (snd (mark_message_as_read message_id current_user now s))) = [?p']"
    using participant_rows_update [of "m_conversation_id message" "u_id current_user"
        "update_message ?m' (db s)" participant "Some message_id"] part
    by (simp add: run)
  show "sent (io (snd (mark_message_as_read message_id current_user now s)))
           = sent (io s) @ frames (read_event message current_user now) (pkg_manager s) (io s)
               (target_users (m_conversation_id message) (Some (u_id current_user))
                  (pkg_manager s))"
    by (simp add: run io_with_pkg_broadcast)
qed

text \<open>
  Claim C4, as amended. Let \<open>message\<close> be the row with the given id and let the user
  have a participant row in its conversation. If the user is the sender, marking is
  rejected with 400 and nothing changes. Otherwise marking succeeds: the message gets
  the read timestamp and the reader, the participant's last-read pointer is set to the
  message, and the only frames sent are the \<open>MESSAGE_READ\<close> event of this message, to
  users other than the reader. Marking again succeeds again (there is no once-only
  guard): the last conjunct. Which members the event reaches is not part of this
  statement.
\<close>

theorem mark_read_by_member:
  assumes msg: "filter (\<lambda>m. m_id m = message_id) (messages (db s)) = [message]"
    and part: "participant_rows (m_conversation_id message) (u_id current_user) (db s)
                 = [participant]"
  shows "(m_sender_id message = Some (u_id current_user) \<longrightarrow>
            mark_message_as_read message_id current_user now s = (Inl HTTP_400_BAD_REQUEST, s))
       \<and> (m_sender_id message \<noteq> Some (u_id current_user) \<longrightarrow>
            fst (mark_message_as_read message_id current_user now s)
              = Inr \<lparr>mr_message_id = message_id, mr_read_at = now,
                     mr_read_by_user_id = u_id current_user\<rparr>
          \<and> filter (\<lambda>m. m_id m = message_id)
               (messages (db (snd (mark_message_as_read message_id current_user now s))))
              = [message\<lparr>m_read_at := Some now,
                         m_read_by_user_id := Some (u_id current_user)\<rparr>]
          \<and> participant_rows (m_conversation_id message) (u_id current_user)
               (db (snd (mark_message_as_read message_id current_user now s)))
              = [participant\<lparr>p_last_read_message_id := Some message_id\<rparr>]
          \<and> (\<exists>user_ids. u_id current_user \<notin> set user_ids
                \<and> sent (io (snd (mark_message_as_read message_id current_user now s)))
                    = sent (io s) @ frames (read_event message current_user now)
                                      (pkg_manager s) (io s) user_ids)
          \<and> fst (mark_message_as_read message_id current_user now'
                    (snd (mark_message_as_read message_id current_user now s)))
              = Inr \<lparr>mr_message_id = message_id, mr_read_at = now',
                     mr_read_by_user_id = u_id current_user\<rparr>)"
proof (intro conjI impI)
  assume "m_sender_id message = Some (u_id current_user)"
  then show "mark_message_as_read message_id current_user now s
               = (Inl HTTP_400_BAD_REQUEST, s)"
    using msg part by (simp add: mark_message_as_read_def)
next
  assume other: "m_sender_id message \<noteq> Some (u_id current_user)"
  note first = mark_read_first [OF msg part other, of now]
  let ?s' = "snd (mark_message_as_read message_id current_user now s)"
  let ?m' = "message\<lparr>m_read_at := Some now, m_read_by_user_id := Some (u_id current_user)\<rparr>"
  show "fst (mark_message_as_read message_id current_user now s)
              = Inr \<lparr>mr_message_id = message_id, mr_read_at = now,
                     mr_read_by_user_id = u_id current_user\<rparr>"
    by (rule first(1))
  show "filter (\<lambda>m. m_id m = message_id) (messages (db ?s')) = [?m']"
    by (rule first(2))
  show "participant_rows (m_conversation_id message) (u_id current_user) (db ?s')
              = [participant\<lparr>p_last_read_message_id := Some message_id\<rparr>]"
    by (rule first(3))
  show "\<exists>user_ids. u_id current_user \<notin> set user_ids
                \<and> sent (io ?s')
                    = sent (io s) @ frames (read_event message current_user now)
                                      (pkg_manager s) (io s) user_ids"
    using first(4) excluded_not_target by blast
  have part': "participant_rows (m_conversation_id ?m') (u_id current_user) (db ?s')
                 = [participant\<lparr>p_last_read_message_id := Some message_id\<rparr>]"
    using first(3) by simp
  have other': "m_sender_id ?m' \<noteq> Some (u_id current_user)"
    using other by simp
  show "fst (mark_message_as_read message_id current_user now' ?s')
              = Inr \<lparr>mr_message_id = message_id, mr_read_at = now',
                     mr_read_by_user_id = u_id current_user\<rparr>"
    by (rule mark_read_first(1) [OF first(2) part' other'])
qed

theorem mark_read_by_member_witness:
  "filter (\<lambda>m. m_id m = 8) (messages (db demo_system)) = [demo_text_message]
   \<and> participant_rows (m_conversation_id demo_text_message) (u_id (demo_user 2))
        (db demo_system) = [new_participant 10 2 1]
   \<and> m_sender_id demo_text_message \<noteq> Some (u_id (demo_user 2))
   \<and> fst (mark_message_as_read 8 (demo_user 2) 5 demo_system)
        = Inr \<lparr>mr_message_id = 8, mr_read_at = 5, mr_read_by_user_id = 2\<rparr>
   \<and> participant_rows (m_conversation_id demo_text_message) (u_id (demo_user 1))
        (db demo_system) = [new_participant 10 1 1]
   \<and> m_sender_id demo_text_message = Some (u_id (demo_user 1))
   \<and> mark_message_as_read 8 (demo_user 1) 5 demo_system
        = (Inl HTTP_400_BAD_REQUEST, demo_system)"
proof -
  have a: "filter (\<lambda>m. m_id m = 8) (messages (db demo_system)) = [demo_text_message]"
    by (simp add: demo_defs)
  have b: "participant_rows (m_conversation_id demo_text_message) (u_id (demo_user 2))
        (db demo_system) = [new_participant 10 2 1]"
    and b': "participant_rows (m_conversation_id demo_text_message) (u_id (demo_user 1))
        (db demo_system) = [new_participant 10 1 1]"
    by (simp_all add: participant_rows_def demo_defs)
  have c: "m_sender_id demo_text_message \<noteq> Some (u_id (demo_user 2))"
    and c': "m_sender_id demo_text_message = Some (u_id (demo_user 1))"
    by (simp_all add: demo_defs)
  from mark_read_by_member [OF a b, of 5] c
  have r: "fst (mark_message_as_read 8 (demo_user 2) 5 demo_system)
        = Inr \<lparr>mr_message_id = 8, mr_read_at = 5, mr_read_by_user_id = u_id (demo_user 2)\<rparr>"
    by blast
  from mark_read_by_member [OF a b', of 5] c'
  have r': "mark_message_as_read 8 (demo_user 1) 5 demo_system
        = (Inl HTTP_400_BAD_REQUEST, demo_system)"
    by blast
  from a b b' c c' r r' show ?thesis
    by (simp add: demo_user_def)
qed

text \<open>
  The claim as stated fails twice over in the group 10 that users 1 and 2 saw created
  while connected. User 2 marks the system message 20 read at time 7 and again at time
  8: both calls succeed and the second overwrites the read timestamp; and neither call
  sends anything, although user 1 is a member with a working transport.
\<close>

theorem mark_read_counterexample:
  "map p_user_id (participants_of 10 (db circle_grown)) = [1, 2, 3]
   \<and> map_of (active_connections (pkg_manager circle_grown)) 1 = Some 100
   \<and> 100 \<notin> broken (io circle_grown)
   \<and> fst (mark_message_as_read 20 (demo_user 2) 7 circle_grown)
       = Inr \<lparr>mr_message_id = 20, mr_read_at = 7, mr_read_by_user_id = 2\<rparr>
   \<and> sent (io (snd (mark_message_as_read 20 (demo_user 2) 7 circle_grown)))
       = sent (io circle_grown)
   \<and> fst (mark_message_as_read 20 (demo_user 2) 8
            (snd (mark_message_as_read 20 (demo_user 2) 7 circle_grown)))
       = Inr \<lparr>mr_message_id = 20, mr_read_at = 8, mr_read_by_user_id = 2\<rparr>
   \<and> map m_read_at (filter (\<lambda>m. m_id m = 20)
        (messages (db (snd (mark_message_as_read 20 (demo_user 2) 7 circle_grown)))))
       = [Some 7]
   \<and> map m_read_at (filter (\<lambda>m. m_id m = 20)
        (messages (db (snd (mark_message_as_read 20 (demo_user 2) 8
            (snd (mark_message_as_read 20 (demo_user 2) 7 circle_grown)))))))
       = [Some 8]"
  by (simp add: circle_grown_def circle_group_def circle_online_def circle_system_def
        demo_accepted_def create_conversation_def validate_participants_def
        add_participant_def accepted_friendship_def friendship_rows_def
        mark_message_as_read_def insertable_def participant_key_def
        handler_defs demo_defs)

section \<open>Reactions\<close>

text \<open>
  Claim C7, as amended. For an existing message: when the user is a current participant
  of its conversation, adding a triple that exists returns the stored row and changes
  nothing (no second row, no event), and adding a triple that is absent appends exactly
  one row and broadcasts \<open>REACTION_ADDED\<close> to the conversation; removing an absent triple
  fails with 404; removing a stored triple deletes it and broadcasts
  \<open>REACTION_REMOVED\<close>. When the user has no participant row, adding is rejected with
  403 and nothing changes.
\<close>

theorem reaction_add_remove:
  assumes msg: "filter (\<lambda>m. m_id m = message_id) (messages (db s)) = [message]"
  shows "(participant_rows (m_conversation_id message) (u_id current_user) (db s) = [participant]
            \<and> reaction_rows message_id (u_id current_user) emoji (db s) = [existing] \<longrightarrow>
            add_reaction message_id emoji current_user new_id now s = (Inr existing, s))
       \<and> (participant_rows (m_conversation_id message) (u_id current_user) (db s) = [participant]
            \<and> reaction_rows message_id (u_id current_user) emoji (db s) = [] \<longrightarrow>
            fst (add_reaction message_id emoji current_user new_id now s)
              = Inr \<lparr>r_id = new_id, r_message_id = message_id, r_user_id = u_id current_user,
                     r_emoji = emoji, r_created_at = Some now\<rparr>
          \<and> reactions (db (snd (add_reaction message_id emoji current_user new_id now s)))
              = reactions (db s)
                  @ [\<lparr>r_id = new_id, r_message_id = message_id, r_user_id = u_id current_user,
                       r_emoji = emoji, r_created_at = Some now\<rparr>]
          \<and> reaction_rows message_id (u_id current_user) emoji
               (db (snd (add_reaction message_id emoji current_user new_id now s)))
              = [\<lparr>r_id = new_id, r_message_id = message_id, r_user_id = u_id current_user,
                   r_emoji = emoji, r_created_at = Some now\<rparr>]
          \<and> sent (io (snd (add_reaction message_id emoji current_user new_id now s)))
              = sent (io s)
                  @ frames (reaction_added_event message current_user emoji now)
                      (pkg_manager s) (io s)
                      (target_users (m_conversation_id message) None (pkg_manager s)))
       \<and> (reaction_rows message_id (u_id current_user) emoji (db s) = [] \<longrightarrow>
            remove_reaction message_id emoji current_user now s = (Inl HTTP_404_NOT_FOUND, s))
       \<and> (reaction_rows message_id (u_id current_user) emoji (db s) = [existing] \<longrightarrow>
            fst (remove_reaction message_id emoji current_user now s)
              = Inr ''Reaction removed successfully''
          \<and> reaction_rows message_id (u_id current_user) emoji
               (db (snd (remove_reaction message_id emoji current_user now s))) = []
          \<and> sent (io (snd (remove_reaction message_id emoji current_user now s)))
              = sent (io s)
                  @ frames (reaction_removed_event message current_user emoji now)
                      (pkg_manager s) (io s)
                      (target_users (m_conversation_id message) None (pkg_manager s)))
       \<and> (participant_rows (m_conversation_id message) (u_id current_user) (db s) = [] \<longrightarrow>
            add_reaction message_id emoji current_user new_id now s
              = (Inl HTTP_403_FORBIDDEN, s))"
proof -
  have i: "m_id message = message_id"
    using single_row_member [OF msg] .
  have a: "participant_rows (m_conversation_id message) (u_id current_user) (db s)
             = [participant]
            \<and> reaction_rows message_id (u_id current_user) emoji (db s) = [existing] \<longrightarrow>
            add_reaction message_id emoji current_user new_id now s = (Inr existing, s)"
    using msg by (simp add: add_reaction_def)
  have b: "participant_rows (m_conversation_id message) (u_id current_user) (db s)
             = [participant]
            \<and> reaction_rows message_id (u_id current_user) emoji (db s) = [] \<longrightarrow>
            fst (add_reaction message_id emoji current_user new_id now s)
              = Inr \<lparr>r_id = new_id, r_message_id = message_id, r_user_id = u_id current_user,
                     r_emoji = emoji, r_created_at = Some now\<rparr>
          \<and> reactions (db (snd (add_reaction message_id emoji current_user new_id now s)))
              = reactions (db s)
                  @ [\<lparr>r_id = new_id, r_message_id = message_id, r_user_id = u_id current_user,
                       r_emoji = emoji, r_created_at = Some now\<rparr>]
          \<and> reaction_rows message_id (u_id current_user) emoji
               (db (snd (add_reaction message_id emoji current_user new_id now s)))
              = [\<lparr>r_id = new_id, r_message_id = message_id, r_user_id = u_id current_user,
                   r_emoji = emoji, r_created_at = Some now\<rparr>]
          \<and> sent (io (snd (add_reaction message_id emoji current_user new_id now s)))
              = sent (io s)
                  @ frames (reaction_added_event message current_user emoji now)
                      (pkg_manager s) (io s)
                      (target_users (m_conversation_id message) None (pkg_manager s))"
    using msg i
    by (auto simp: add_reaction_def Let_def io_with_pkg_broadcast reaction_added_event_def
          reaction_rows_def)
  have c: "reaction_rows message_id (u_id current_user) emoji (db s) = [] \<longrightarrow>
            remove_reaction message_id emoji current_user now s = (Inl HTTP_404_NOT_FOUND, s)"
    using msg by (simp add: remove_reaction_def)
  have d: "reaction_rows message_id (u_id current_user) emoji (db s) = [existing] \<longrightarrow>
            fst (remove_reaction message_id emoji current_user now s)
              = Inr ''Reaction removed successfully''
          \<and> reaction_rows message_id (u_id current_user) emoji
               (db (snd (remove_reaction message_id emoji current_user now s))) = []
          \<and> sent (io (snd (remove_reaction message_id emoji current_user now s)))
              = sent (io s)
                  @ frames (reaction_removed_event message current_user emoji now)
                      (pkg_manager s) (io s)
                      (target_users (m_conversation_id message) None (pkg_manager s))"
  proof
    assume e: "reaction_rows message_id (u_id current_user) emoji (db s) = [existing]"
    have run: "remove_reaction message_id emoji current_user now s
        = (Inr ''Reaction removed successfully'',
           with_pkg (broadcast_to_conversation
                       (reaction_removed_event message current_user emoji now)
                       (m_conversation_id message) None)
             (s\<lparr>db := (db s)\<lparr>reactions :=
                  filter (\<lambda>r. r_id r \<noteq> r_id existing) (reactions (db s))\<rparr>\<rparr>))"
      using msg e i
      by (simp add: remove_reaction_def Let_def reaction_removed_event_def)
    have gone: "reaction_rows message_id (u_id current_user) emoji
          ((db s)\<lparr>reactions := filter (\<lambda>r. r_id r \<noteq> r_id existing) (reactions (db s))\<rparr>) = []"
      using e filter_delete_unique [of _ "reactions (db s)" existing r_id]
      by (simp add: reaction_rows_def)
    show "fst (remove_reaction message_id emoji current_user now s)
              = Inr ''Reaction removed successfully''
          \<and> reaction_rows message_id (u_id current_user) emoji
               (db (snd (remove_reaction message_id emoji current_user now s))) = []
          \<and> sent (io (snd (remove_reaction message_id emoji current_user now s)))
              = sent (io s)
                  @ frames (reaction_removed_event message current_user emoji now)
                      (pkg_manager s) (io s)
                      (target_users (m_conversation_id message) None (pkg_manager s))"
      using gone by (simp add: run io_with_pkg_broadcast)
  qed
  have e: "participant_rows (m_conversation_id message) (u_id current_user) (db s) = [] \<longrightarrow>
            add_reaction message_id emoji current_user new_id now s
              = (Inl HTTP_403_FORBIDDEN, s)"
    using msg by (simp add: add_reaction_def)
  from a b c d e show ?thesis by blast
qed

theorem reaction_add_remove_witness:
  "filter (\<lambda>m. m_id m = 8) (messages (db demo_system)) = [demo_text_message]
   \<and> participant_rows (m_conversation_id demo_text_message) (u_id (demo_user 2))
        (db demo_system) = [new_participant 10 2 1]
   \<and> reaction_rows 8 (u_id (demo_user 2)) ''+1'' (db demo_system) = []
   \<and> remove_reaction 8 ''+1'' (demo_user 2) 9 demo_system
        = (Inl HTTP_404_NOT_FOUND, demo_system)
   \<and> reactions (db (snd (add_reaction 8 ''+1'' (demo_user 2) 31 9 demo_system)))
        = [demo_plus_one]
   \<and> add_reaction 8 ''+1'' (demo_user 2) 32 11
        (snd (add_reaction 8 ''+1'' (demo_user 2) 31 9 demo_system))
        = (Inr demo_plus_one, snd (add_reaction 8 ''+1'' (demo_user 2) 31 9 demo_system))
   \<and> reaction_rows 8 (u_id (demo_user 2)) ''+1''
        (db (snd (remove_reaction 8 ''+1'' (demo_user 2) 12
                    (snd (add_reaction 8 ''+1'' (demo_user 2) 31 9 demo_system))))) = []"
proof -
  let ?s1 = "snd (add_reaction 8 ''+1'' (demo_user 2) 31 9 demo_system)"
  have a: "filter (\<lambda>m. m_id m = 8) (messages (db demo_system)) = [demo_text_message]"
    by (simp add: demo_defs)
  have b: "participant_rows (m_conversation_id demo_text_message) (u_id (demo_user 2))
        (db demo_system) = [new_participant 10 2 1]"
    by (simp add: participant_rows_def demo_defs)
  have c: "reaction_rows 8 (u_id (demo_user 2)) ''+1'' (db demo_system) = []"
    by (simp add: reaction_rows_def demo_defs)
  have d: "reactions (db demo_system) = []"
    by (simp add: demo_defs)
  note first = reaction_add_remove [OF a, where current_user = "demo_user 2"
      and emoji = "''+1''" and participant = "new_participant 10 2 1" and new_id = 31
      and now = 9]
  from first b c d
  have e: "reactions (db ?s1) = [demo_plus_one]"
    and f: "reaction_rows 8 (u_id (demo_user 2)) ''+1'' (db ?s1) = [demo_plus_one]"
    by (simp_all add: demo_plus_one_def demo_user_def)
  from first c
  have g: "remove_reaction 8 ''+1'' (demo_user 2) 9 demo_system
        = (Inl HTTP_404_NOT_FOUND, demo_system)"
    by blast
  have a1: "filter (\<lambda>m. m_id m = 8) (messages (db ?s1)) = [demo_text_message]"
    and b1: "participant_rows (m_conversation_id demo_text_message) (u_id (demo_user 2))
        (db ?s1) = [new_participant 10 2 1]"
    by (simp_all add: add_reaction_def reaction_rows_def handler_defs demo_defs)
  from reaction_add_remove [OF a1, where current_user = "demo_user 2"
      and emoji = "''+1''" and participant = "new_participant 10 2 1" and new_id = 32
      and now = 11 and existing = demo_plus_one] b1 f
  have h: "add_reaction 8 ''+1'' (demo_user 2) 32 11 ?s1 = (Inr demo_plus_one, ?s1)"
    by blast
  from reaction_add_remove [OF a1, where current_user = "demo_user 2"
      and emoji = "''+1''" and now = 12 and existing = demo_plus_one] f
  have i: "reaction_rows 8 (u_id (demo_user 2)) ''+1''
        (db (snd (remove_reaction 8 ''+1'' (demo_user 2) 12 ?s1))) = []"
    by blast
  from a b c e g h i show ?thesis by simp
qed

text \<open>
  The claim as stated fails: \<open>add_reaction\<close> checks membership before it looks for the
  triple, so a user who is not a participant gets 403 although the triple is stored.
\<close>

theorem reaction_add_non_member_counterexample:
  "reaction_rows 8 (u_id (demo_user 4)) ''+1'' (db demo_reacted) = [demo_reaction]
   \<and> participant_rows 10 (u_id (demo_user 4)) (db demo_reacted) = []
   \<and> add_reaction 8 ''+1'' (demo_user 4) 31 9 demo_reacted
       = (Inl HTTP_403_FORBIDDEN, demo_reacted)"
  by (simp add: add_reaction_def reaction_rows_def participant_rows_def demo_reacted_def
        demo_reaction_def demo_defs)

section \<open>Friend requests on an existing row\<close>

text \<open>
  Claim C8. One friendship row joins the two users. When its status is pending,
  accepted or blocked, a new request is rejected and nothing changes; between two
  distinct existing users the answer is 403 for blocked and 400 otherwise. When its
  status is rejected (the users exist and differ, row ids are unique as the primary key
  makes them), the request rewrites that row: requester and recipient in the new
  direction, status pending; the pair still has exactly one row and the table holds the
  same row ids, so nothing is inserted.
\<close>

theorem friend_request_on_existing_row:
  assumes row: "friendship_rows (u_id current_user) friend_id (db s) = [existing]"
  shows "(f_status existing \<in> {''pending'', ''accepted'', ''blocked''} \<longrightarrow>
            isl (fst (send_friend_request friend_id current_user new_id now s))
          \<and> snd (send_friend_request friend_id current_user new_id now s) = s)
       \<and> (f_status existing \<in> {''pending'', ''accepted'', ''blocked''}
            \<and> friend_id \<noteq> u_id current_user
            \<and> filter (\<lambda>u. u_id u = friend_id) (users (db s)) = [target_user] \<longrightarrow>
            fst (send_friend_request friend_id current_user new_id now s)
              = Inl (if f_status existing = ''blocked'' then HTTP_403_FORBIDDEN
                     else HTTP_400_BAD_REQUEST))
       \<and> (f_status existing = ''rejected''
            \<and> friend_id \<noteq> u_id current_user
            \<and> filter (\<lambda>u. u_id u = friend_id) (users (db s)) = [target_user]
            \<and> distinct (map f_id (friendships (db s))) \<longrightarrow>
            fst (send_friend_request friend_id current_user new_id now s)
              = Inr (existing\<lparr>f_status := ''pending'', f_user_id := u_id current_user,
                              f_friend_id := friend_id, f_updated_at := Some now\<rparr>)
          \<and> friendship_rows (u_id current_user) friend_id
               (db (snd (send_friend_request friend_id current_user new_id now s)))
              = [existing\<lparr>f_status := ''pending'', f_user_id := u_id current_user,
                           f_friend_id := friend_id, f_updated_at := Some now\<rparr>]
          \<and> map f_id (friendships (db (snd (send_friend_request friend_id current_user
                                               new_id now s))))
              = map f_id (friendships (db s)))"
proof (intro conjI impI)
  assume "f_status existing \<in> {''pending'', ''accepted'', ''blocked''}"
  then show "isl (fst (send_friend_request friend_id current_user new_id now s))"
    and "snd (send_friend_request friend_id current_user new_id now s) = s"
    using row by (auto simp: send_friend_request_def split: sum.splits option.splits)
next
  assume "f_status existing \<in> {''pending'', ''accepted'', ''blocked''}
            \<and> friend_id \<noteq> u_id current_user
            \<and> filter (\<lambda>u. u_id u = friend_id) (users (db s)) = [target_user]"
  then show "fst (send_friend_request friend_id current_user new_id now s)
              = Inl (if f_status existing = ''blocked'' then HTTP_403_FORBIDDEN
                     else HTTP_400_BAD_REQUEST)"
    using row by (auto simp: send_friend_request_def)
next
  assume h: "f_status existing = ''rejected''
            \<and> friend_id \<noteq> u_id current_user
            \<and> filter (\<lambda>u. u_id u = friend_id) (users (db s)) = [target_user]
            \<and> distinct (map f_id (friendships (db s)))"
  let ?e = "existing\<lparr>f_status := ''pending'', f_user_id := u_id current_user,
                     f_friend_id := friend_id, f_updated_at := Some now\<rparr>"
  have run: "send_friend_request friend_id current_user new_id now s
      = (Inr ?e, s\<lparr>db := update_friendship ?e (db s)\<rparr>)"
    using h row by (simp add: send_friend_request_def Let_def)
  show "fst (send_friend_request friend_id current_user new_id now s) = Inr ?e"
    by (simp add: run)
  show "friendship_rows (u_id current_user) friend_id
               (db (snd (send_friend_request friend_id current_user new_id now s))) = [?e]"
    using filter_update_unique [of f_id "friendships (db s)"
        "\<lambda>f. (f_user_id f = u_id current_user \<and> f_friend_id f = friend_id)
            \<or> (f_user_id f = friend_id \<and> f_friend_id f = u_id current_user)" existing ?e]
      h row
    by (simp add: run friendship_rows_def update_friendship_def)
  show "map f_id (friendships (db (snd (send_friend_request friend_id current_user
                                               new_id now s))))
              = map f_id (friendships (db s))"
    by (simp add: run update_friendship_def comp_def if_distrib [of f_id] cong: if_cong)
qed

theorem friend_request_on_existing_row_witness:
  "friendship_rows (u_id (demo_user 1)) 2 (db demo_friends) = [demo_rejected]
   \<and> f_status demo_rejected = ''rejected''
   \<and> 2 \<noteq> u_id (demo_user 1)
   \<and> filter (\<lambda>u. u_id u = 2) (users (db demo_friends)) = [demo_user 2]
   \<and> distinct (map f_id (friendships (db demo_friends)))
   \<and> friendship_rows (u_id (demo_user 1)) 2
        (db (snd (send_friend_request 2 (demo_user 1) 42 9 demo_friends)))
       = [\<lparr>f_id = 40, f_user_id = 1, f_friend_id = 2, f_status = ''pending'',
           f_created_at = Some 1, f_updated_at = Some 9\<rparr>]
   \<and> friendship_rows (u_id (demo_user 1)) 3 (db demo_friends) = [demo_accepted]
   \<and> f_status demo_accepted \<in> {''pending'', ''accepted'', ''blocked''}
   \<and> send_friend_request 3 (demo_user 1) 42 9 demo_friends
       = (Inl HTTP_400_BAD_REQUEST, demo_friends)"
proof -
  have a: "filter (\<lambda>u. u_id u = 2) (users (db demo_friends)) = [demo_user 2]"
    and b: "2 \<noteq> u_id (demo_user 1)"
    and c: "friendship_rows (u_id (demo_user 1)) 2 (db demo_friends) = [demo_rejected]"
    and d: "distinct (map f_id (friendships (db demo_friends)))"
    and e: "f_status demo_rejected = ''rejected''"
    by (simp_all add: friendship_rows_def demo_friends_def demo_rejected_def
          demo_accepted_def demo_defs)
  have a': "filter (\<lambda>u. u_id u = 3) (users (db demo_friends)) = [demo_user 3]"
    and b': "3 \<noteq> u_id (demo_user 1)"
    and c': "friendship_rows (u_id (demo_user 1)) 3 (db demo_friends) = [demo_accepted]"
    and e': "f_status demo_accepted \<in> {''pending'', ''accepted'', ''blocked''}"
    and f': "f_status demo_accepted \<noteq> ''blocked''"
    by (simp_all add: friendship_rows_def demo_friends_def demo_rejected_def
          demo_accepted_def demo_defs)
  from friend_request_on_existing_row [OF c, where target_user = "demo_user 2"
      and new_id = 42 and now = 9] a b d e
  have r: "friendship_rows (u_id (demo_user 1)) 2
        (db (snd (send_friend_request 2 (demo_user 1) 42 9 demo_friends)))
       = [demo_rejected\<lparr>f_status := ''pending'', f_user_id := u_id (demo_user 1),
            f_friend_id := 2, f_updated_at := Some 9\<rparr>]"
    by blast
  note t = friend_request_on_existing_row [OF c', where target_user = "demo_user 3"
      and new_id = 42 and now = 9]
  from t e' have r1: "snd (send_friend_request 3 (demo_user 1) 42 9 demo_friends)
       = demo_friends"
    by blast
  from t e' a' b' have "fst (send_friend_request 3 (demo_user 1) 42 9 demo_friends)
       = Inl (if f_status demo_accepted = ''blocked'' then HTTP_403_FORBIDDEN
              else HTTP_400_BAD_REQUEST)"
    by blast
  with f' r1 have r': "send_friend_request 3 (demo_user 1) 42 9 demo_friends
       = (Inl HTTP_400_BAD_REQUEST, demo_friends)"
    by (simp add: prod_eq_iff)
  from a b c d e c' e' r r' show ?thesis
    by (simp add: demo_rejected_def demo_user_def)
qed

section \<open>Broadcasts after a departure\<close>

text \<open>
  Claim C1 says that a user who is not a member of a conversation, in particular one who
  has left it or was removed from it, receives nothing from a broadcast to it. The
  code does otherwise. \<open>broadcast_to_conversation\<close> resolves its recipients from
  \<open>user_conversations\<close> (lemma \<open>sent_broadcast\<close> above), and neither
  \<open>leave_conversation\<close> nor \<open>remove_participant\<close> calls
  \<open>remove_user_from_conversation\<close>. In both scenarios the user has no participant row
  any more, is still connected, and gets the \<open>REACTION_ADDED\<close> event of a reaction
  that user 2 adds in conversation 10 afterwards.
\<close>

theorem departed_user_still_receives:
  "participant_rows 10 1 (db departed_left) = []
   \<and> map_of (active_connections (pkg_manager departed_left)) 1 = Some 100
   \<and> sent (io (snd (add_reaction 8 ''+1'' (demo_user 2) 31 6 departed_left)))
       = sent (io departed_left)
           @ [(100, reaction_added_event demo_text_message (demo_user 2) ''+1'' 6)]
   \<and> participant_rows 10 3 (db removed_kicked) = []
   \<and> map_of (active_connections (pkg_manager removed_kicked)) 3 = Some 300
   \<and> sent (io (snd (add_reaction 8 ''+1'' (demo_user 2) 31 6 removed_kicked)))
       = sent (io removed_kicked)
           @ [(300, reaction_added_event demo_text_message (demo_user 2) ''+1'' 6)]"
  by (simp add: departed_left_def departed_connected_def removed_kicked_def
        removed_connected_def leave_conversation_def remove_participant_def
        add_reaction_def reaction_added_event_def handler_defs demo_defs)

section \<open>The size of a group\<close>

lemma db_fold_preserved:
  "(\<And>u s'. db (step u s') = db s') \<Longrightarrow> db (fold step us s) = db s"
  by (induction us arbitrary: s) simp_all

lemma insertable_new_conversation:
  assumes "participants_of new_id d = []" and "distinct (user_id # user_ids)"
  shows "insertable
           (new_participant new_id user_id now
              # map (\<lambda>participant_id. new_participant new_id participant_id now) user_ids)
           (participants d)"
proof -
  let ?rows = "new_participant new_id user_id now
      # map (\<lambda>participant_id. new_participant new_id participant_id now) user_ids"
  have k: "map participant_key ?rows = map (Pair new_id) (user_id # user_ids)"
    by (simp add: participant_key_def new_participant_def)
  have "inj_on (Pair new_id) (set (user_id # user_ids))"
    by (rule inj_onI) simp
  with assms(2) have "distinct (map (Pair new_id) (user_id # user_ids))"
    unfolding distinct_map by blast
  then have d: "distinct (map participant_key ?rows)"
    by (simp only: k)
  have n: "\<forall>p \<in> set (participants d). p_conversation_id p \<noteq> new_id"
    using assms(1) by (simp add: participants_of_def filter_empty_conv)
  have f: "\<forall>p \<in> set ?rows. participant_key p \<notin> set (map participant_key (participants d))"
    using n by (auto simp: participant_key_def new_participant_def)
  from d f show ?thesis
    unfolding insertable_def list_all_iff by blast
qed

lemma create_group_members:
  assumes "cc_type conversation_data = group"
    and "cc_title conversation_data = Some title" and "title \<noteq> []"
    and "length (filter (\<lambda>u. u_id u \<in> set (cc_participant_ids conversation_data))
                   (users (db s)))
           = length (cc_participant_ids conversation_data)"
    and "filter (\<lambda>c. c_id c = new_id) (conversations (db s)) = []"
    and "participants_of new_id (db s) = []"
    and "distinct (u_id current_user # cc_participant_ids conversation_data)"
  shows "\<not> isl (fst (create_conversation conversation_data current_user new_id now s))"
    and "map p_user_id (participants_of new_id
           (db (snd (create_conversation conversation_data current_user new_id now s))))
         = u_id current_user # cc_participant_ids conversation_data"
proof -
  have v: "validate_participants conversation_data current_user (db s) = Inr ()"
    using assms(1-3) by (simp add: validate_participants_def)
  have i: "insertable
      (new_participant new_id (u_id current_user) now
         # map (\<lambda>participant_id. new_participant new_id participant_id now)
             (cc_participant_ids conversation_data))
      (participants (db s))"
    by (rule insertable_new_conversation [OF assms(6,7)])
  have p: "filter (\<lambda>p. p_conversation_id p = new_id)
             (map (\<lambda>participant_id. new_participant new_id participant_id now) ids)
           = map (\<lambda>participant_id. new_participant new_id participant_id now) ids" for ids
    by (induction ids) (simp_all add: new_participant_def)
  show "\<not> isl (fst (create_conversation conversation_data current_user new_id now s))"
    using v i assms(4,5) by (simp add: create_conversation_def Let_def)
  show "map p_user_id (participants_of new_id
           (db (snd (create_conversation conversation_data current_user new_id now s))))
         = u_id current_user # cc_participant_ids conversation_data"
    using v i assms(4,5,6) p
    by (simp add: create_conversation_def Let_def participants_of_def new_participant_def
          comp_def db_fold_preserved)
qed

lemma crowd_users_found:
  "length (filter (\<lambda>u. u_id u \<in> set [1..<101]) (map demo_user [0..<101])) = 100"
proof -
  have "[0..<101] = 0 # [1..<101]"
    by (simp add: upt_conv_Cons)
  then have "filter (\<lambda>i. i \<in> set [1..<101]) [0..<101] = [1..<(101::nat)]"
    by simp
  then have "length (filter (\<lambda>i. i \<in> set [1..<101]) [0..<(101::nat)]) = 100"
    by simp
  then show ?thesis
    by (simp add: filter_map comp_def demo_user_def)
qed

lemma batch_loop_bound:
  "batch_loop conversation_id current_user now d user_ids acc = Inr acc' \<Longrightarrow>
   length (fst acc') \<le> length (fst acc) + length user_ids"
proof (induction user_ids arbitrary: acc)
  case Nil
  then show ?case by simp
next
  case (Cons user_id user_ids)
  from Cons.prems show ?case
    by (auto split: sum.splits option.splits dest!: Cons.IH)
qed

lemma add_participant_within_cap:
  assumes "fst (add_participant conversation_id user_id current_user new_id now s) = Inr r"
  shows "length (participants_of conversation_id
           (db (snd (add_participant conversation_id user_id current_user new_id now s))))
         \<le> 100"
  using assms
  by (auto simp: add_participant_def Let_def participants_of_def update_conversation_def
        new_participant_def
      split: sum.splits option.splits if_splits)

lemma add_participant_rejected_at_cap:
  assumes "length (participants_of conversation_id (db s)) \<ge> 100"
  shows "isl (fst (add_participant conversation_id user_id current_user new_id now s))
       \<and> snd (add_participant conversation_id user_id current_user new_id now s) = s"
  using assms
  by (auto simp: add_participant_def split: sum.splits option.splits)

lemma add_participants_batch_within_cap:
  assumes "fst (add_participants_batch conversation_id user_ids current_user new_id now s)
             = Inr r"
  shows "length (participants_of conversation_id
           (db (snd (add_participants_batch conversation_id user_ids current_user new_id
                       now s))))
         \<le> 100"
proof (cases "batch_loop conversation_id current_user now (db s) user_ids ([], [])")
  case (Inl e)
  with assms show ?thesis
    by (auto simp: add_participants_batch_def split: sum.splits option.splits if_splits)
next
  case (Inr acc')
  obtain ps us where acc': "acc' = (ps, us)" by (cases acc')
  from batch_loop_bound [OF Inr] have "length ps \<le> length user_ids"
    by (simp add: acc')
  then have "length (filter (\<lambda>p. p_conversation_id p = conversation_id) ps)
               \<le> length user_ids"
    using le_trans [OF length_filter_le [of "\<lambda>p. p_conversation_id p = conversation_id" ps]]
    by simp
  with assms Inr acc' show ?thesis
    by (auto simp: add_participants_batch_def Let_def participants_of_def
          update_conversation_def db_fold_preserved
        split: sum.splits option.splits if_splits)
qed

lemma add_participants_batch_rejected_above_cap:
  assumes "length (participants_of conversation_id (db s)) + length user_ids > 100"
  shows "isl (fst (add_participants_batch conversation_id user_ids current_user new_id now s))
       \<and> snd (add_participants_batch conversation_id user_ids current_user new_id now s) = s"
  using assms
  by (auto simp: add_participants_batch_def split: sum.splits option.splits)

text \<open>
  Claim C2 says that every operation that adds participants, creation included, leaves a
  group with at most 100 members. \<open>add_participant\<close> and \<open>add_participants_batch\<close>
  check the cap (the four lemmas above); \<open>create_conversation\<close> does not: asked for a
  group with 100 other users it succeeds and stores 101 participants.
\<close>

theorem group_created_above_cap:
  "\<not> isl (fst (create_conversation crowd_request (demo_user 0) 50 9 crowd_system))
   \<and> length (participants_of 50
        (db (snd (create_conversation crowd_request (demo_user 0) 50 9 crowd_system)))) = 101"
proof -
  have a: "cc_type crowd_request = group"
    and b: "cc_title crowd_request = Some ''crowd''" and c: "''crowd'' \<noteq> []"
    and e: "filter (\<lambda>c. c_id c = 50) (conversations (db crowd_system)) = []"
    and f: "participants_of 50 (db crowd_system) = []"
    by (simp_all add: crowd_request_def crowd_system_def participants_of_def)
  have d: "length (filter (\<lambda>u. u_id u \<in> set (cc_participant_ids crowd_request))
                   (users (db crowd_system)))
           = length (cc_participant_ids crowd_request)"
    using crowd_users_found by (simp add: crowd_request_def crowd_system_def)
  have g: "distinct (u_id (demo_user 0) # cc_participant_ids crowd_request)"
    by (simp add: crowd_request_def demo_user_def)
  note r = create_group_members [OF a b c d e f g, of 9]
  have "length (map p_user_id (participants_of 50
        (db (snd (create_conversation crowd_request (demo_user 0) 50 9 crowd_system))))) = 101"
    unfolding r(2) by (simp add: crowd_request_def)
  with r(1) show ?thesis by simp
qed

section \<open>A group left with one member\<close>

lemma leave_disbands_pair:
  assumes p: "participant_rows conversation_id (u_id current_user) (db s) = [participant]"
    and c: "filter (\<lambda>c. c_id c = conversation_id) (conversations (db s)) = [conversation]"
    and g: "c_type conversation = group"
    and two: "length (participants_of conversation_id (db s)) = 2"
  shows "fst (leave_conversation conversation_id current_user new_id new_id' now s) = Inr ()"
    and "filter (\<lambda>c. c_id c = conversation_id)
           (conversations (db (snd (leave_conversation conversation_id current_user
                                      new_id new_id' now s)))) = []"
    and "participants_of conversation_id
           (db (snd (leave_conversation conversation_id current_user new_id new_id' now s)))
           = []"
    and "filter (\<lambda>m. m_conversation_id m = conversation_id)
           (messages (db (snd (leave_conversation conversation_id current_user
                                 new_id new_id' now s)))) = []"
    and "get_conversation conversation_id anyone
           (snd (leave_conversation conversation_id current_user new_id new_id' now s))
           = Inl HTTP_404_NOT_FOUND"
proof -
  have k: "p_conversation_id participant = conversation_id
           \<and> p_user_id participant = u_id current_user"
    using single_row_member [of "\<lambda>p. p_conversation_id p = conversation_id
        \<and> p_user_id p = u_id current_user"] p
    by (simp add: participant_rows_def)
  let ?mine = "\<lambda>p. p_user_id p = u_id current_user"
  have split: "length (filter ?mine (participants_of conversation_id (db s)))
      + length (filter (\<lambda>p. \<not> ?mine p) (participants_of conversation_id (db s)))
      = length (participants_of conversation_id (db s))"
    by (rule sum_length_filter_compl)
  have mine: "filter ?mine (participants_of conversation_id (db s)) = [participant]"
    using p by (simp add: participants_of_def participant_rows_def)
  have rest: "participants_of conversation_id (delete_participant participant (db s))
      = filter (\<lambda>p. \<not> ?mine p) (participants_of conversation_id (db s))"
    using k by (auto simp: participants_of_def delete_participant_def intro: filter_cong)
  have one: "length (participants_of conversation_id
                (delete_participant participant (db s))) = 1"
    using split mine two rest by simp
  have one': "length (filter (\<lambda>p. p_conversation_id p = conversation_id)
                 (participants (delete_participant participant (db s)))) = Suc 0"
    using one by (simp add: participants_of_def)
  note unfold = leave_conversation_def Let_def participants_of_def update_conversation_def
    delete_conversation_cascade_def filter_empty_conv
  show "fst (leave_conversation conversation_id current_user new_id new_id' now s) = Inr ()"
    using p c g one' by (simp add: unfold)
  show gone: "filter (\<lambda>c. c_id c = conversation_id)
           (conversations (db (snd (leave_conversation conversation_id current_user
                                      new_id new_id' now s)))) = []"
    using p c g one' by (simp add: unfold)
  show "participants_of conversation_id
           (db (snd (leave_conversation conversation_id current_user new_id new_id' now s)))
           = []"
    using p c g one' by (simp add: unfold)
  show "filter (\<lambda>m. m_conversation_id m = conversation_id)
           (messages (db (snd (leave_conversation conversation_id current_user
                                 new_id new_id' now s)))) = []"
    using p c g one' by (simp add: unfold)
  show "get_conversation conversation_id anyone
           (snd (leave_conversation conversation_id current_user new_id new_id' now s))
           = Inl HTTP_404_NOT_FOUND"
    using gone by (simp add: get_conversation_def)
qed

text \<open>
  Claim C6 says that when a departure leaves a group with one member, that member is
  notified with a disband message and the group is removed. With the users 1 and 2
  both connected: when user 1 leaves, the group is removed and a fetch gives 404, but
  nothing is sent to user 2, because the notice goes through \<open>mod_manager\<close>, which
  holds no connection; and when the creator removes user 2 through
  \<open>remove_participant\<close>, the group stays, with one member, and a fetch returns it.
\<close>

theorem disband_not_announced:
  "map_of (active_connections (pkg_manager pair_online)) 2 = Some 200
   \<and> map p_user_id (participants_of 10 (db pair_online)) = [1, 2]
   \<and> fst (leave_conversation 10 (demo_user 1) 20 21 5 pair_online) = Inr ()
   \<and> get_conversation 10 (demo_user 2)
        (snd (leave_conversation 10 (demo_user 1) 20 21 5 pair_online))
       = Inl HTTP_404_NOT_FOUND
   \<and> sent (io (snd (leave_conversation 10 (demo_user 1) 20 21 5 pair_online)))
       = sent (io pair_online)
   \<and> fst (remove_participant 10 2 (demo_user 1) pair_online) = Inr ()
   \<and> map p_user_id
        (participants_of 10 (db (snd (remove_participant 10 2 (demo_user 1) pair_online))))
       = [1]
   \<and> get_conversation 10 (demo_user 1)
        (snd (remove_participant 10 2 (demo_user 1) pair_online))
       = Inr \<lparr>cr_conversation = demo_group, cr_participants = [1]\<rparr>"
  by (simp add: pair_online_def pair_system_def leave_conversation_def
        remove_participant_def get_conversation_def handler_defs demo_defs)

section \<open>Sending a message\<close>

lemma send_message_rejects_non_member:
  "participant_rows (mc_conversation_id message_data) (u_id current_user) (db s) = [] \<Longrightarrow>
   send_message message_data current_user new_id now s = (Inl HTTP_403_FORBIDDEN, s)"
  by (simp add: send_message_def)

lemma send_message_by_member_fails:
  assumes "participant_rows (mc_conversation_id message_data) (u_id current_user) (db s) = [p]"
    and "filter (\<lambda>c. c_id c = mc_conversation_id message_data) (conversations (db s)) = [c]"
  shows "send_message message_data current_user new_id now s = (Inl IntegrityError, s)"
  using assms by (simp add: send_message_def Let_def Message_init_def)

text \<open>
  Claim C9 says that a send by a member succeeds: it persists the message, sets the
  conversation's last-activity timestamp to the creation time of the message and
  delivers one \<open>NEW_MESSAGE\<close> event to every online member, the sender included. The
  code rejects the non-member (first lemma above) but never gets the member's message
  through (second lemma): \<open>updated_at\<close> receives the \<open>created_at\<close> of a message that is
  not flushed yet, so \<open>commit\<close> raises \<open>IntegrityError\<close>. Here users 1 and 2 are
  connected and are the two members of the direct conversation 10; the send of user 1
  fails and leaves everything as it was: no message stored, no frame sent.
\<close>

theorem member_send_fails:
  "map p_user_id (participants_of 10 (db fresh_direct)) = [1, 2]
   \<and> map_of (active_connections (pkg_manager fresh_direct)) 1 = Some 100
   \<and> map_of (active_connections (pkg_manager fresh_direct)) 2 = Some 200
   \<and> send_message hello (demo_user 1) 11 6 fresh_direct = (Inl IntegrityError, fresh_direct)
   \<and> messages (db fresh_direct) = []"
proof -
  have a: "map p_user_id (participants_of 10 (db fresh_direct)) = [1, 2]"
    and b: "map_of (active_connections (pkg_manager fresh_direct)) 1 = Some 100"
    and c: "map_of (active_connections (pkg_manager fresh_direct)) 2 = Some 200"
    and d: "messages (db fresh_direct) = []"
    by (simp_all add: fresh_direct_def fresh_online_def fresh_system_def
          create_conversation_def validate_participants_def existing_direct_def
          insertable_def participant_key_def handler_defs demo_defs)
  have e: "send_message hello (demo_user 1) 11 6 fresh_direct = (Inl IntegrityError, fresh_direct)"
    by (simp add: fresh_direct_def fresh_online_def fresh_system_def hello_def
          create_conversation_def validate_participants_def existing_direct_def
          insertable_def participant_key_def send_message_def handler_defs demo_defs)
  from a b c d e show ?thesis by simp
qed

end
